theory Spec2Isabelle
  imports Complex_Main "HOL-Library.Log_Nat"
begin

section \<open>Call-center metrics calculator: the embedding\<close>

subsection \<open>JavaScript numbers\<close>

text \<open>
  A JavaScript number is an IEEE 754 double: a finite value, one of the two zeros, one of
  the two infinities, or \<open>NaN\<close>. A finite value is carried as the real number it
  denotes; \<open>Num 0\<close> is the positive zero and \<open>NegZero\<close> the negative one. Every
  arithmetic operation computes the exact real result and rounds it to the nearest
  double, ties to the even significand, overflowing to an infinity.
\<close>

datatype jsnum = NaN | PosInf | NegInf | NegZero | Num real

text \<open>Powers of two with an integer exponent.\<close>

definition pow2 :: "int \<Rightarrow> real" where
  "pow2 e = (if 0 \<le> e then 2 ^ nat e else 1 / 2 ^ nat (- e))"

text \<open>The binary exponent of a positive real \<open>x\<close>: the integer \<open>L\<close> with
  \<open>2\<^sup>L \<le> x < 2\<^sup>L\<^sup>+\<^sup>1\<close>, computed from the bit length of an integer.\<close>

definition floorLog2 :: "real \<Rightarrow> int" where
  "floorLog2 x = (if 1 \<le> x then bitlen \<lfloor>x\<rfloor> - 1 else - bitlen (\<lceil>1 / x\<rceil> - 1))"

text \<open>Rounding to the nearest integer, a tie going to the even one.\<close>

definition roundHalfEven :: "real \<Rightarrow> int" where
  "roundHalfEven q =
     (let f = \<lfloor>q\<rfloor>; d = q - of_int f
      in if d < 1 / 2 then f
         else if 1 / 2 < d then f + 1
         else if even f then f else f + 1)"

text \<open>
  The double nearest to a real number. Doubles near \<open>x\<close> are the multiples of
  \<open>2\<^sup>e\<close>, where \<open>e\<close> is 52 below the binary exponent of \<open>x\<close> and at least -1074
  (the subnormal range); a result of magnitude \<open>2\<^sup>1\<^sup>0\<^sup>2\<^sup>4\<close> or more is an infinity,
  and a non-zero number that rounds to zero keeps its sign.
\<close>

definition toDouble :: "real \<Rightarrow> jsnum" where
  "toDouble x =
     (if x = 0 then Num 0
      else
        (let e = max (floorLog2 \<bar>x\<bar> - 52) (- 1074);
             n = roundHalfEven (x / pow2 e)
         in if n = 0 then (if x < 0 then NegZero else Num 0)
            else if 2 ^ 1024 \<le> \<bar>of_int n * pow2 e\<bar> then (if x < 0 then NegInf else PosInf)
            else Num (of_int n * pow2 e)))"

fun isNaN :: "jsnum \<Rightarrow> bool" where
  "isNaN NaN = True"
| "isNaN _ = False"

fun isInfinite :: "jsnum \<Rightarrow> bool" where
  "isInfinite PosInf = True"
| "isInfinite NegInf = True"
| "isInfinite _ = False"

fun isZero :: "jsnum \<Rightarrow> bool" where
  "isZero NegZero = True"
| "isZero (Num a) = (a = 0)"
| "isZero _ = False"

text \<open>The sign bit: set for the negative zero, too.\<close>

fun isNegative :: "jsnum \<Rightarrow> bool" where
  "isNegative NegInf = True"
| "isNegative NegZero = True"
| "isNegative (Num a) = (a < 0)"
| "isNegative _ = False"

fun finiteValue :: "jsnum \<Rightarrow> real" where
  "finiteValue (Num a) = a"
| "finiteValue _ = 0"

definition signedInf :: "bool \<Rightarrow> jsnum" where
  "signedInf negative = (if negative then NegInf else PosInf)"

definition signedZero :: "bool \<Rightarrow> jsnum" where
  "signedZero negative = (if negative then NegZero else Num 0)"

fun jneg :: "jsnum \<Rightarrow> jsnum" where
  "jneg NaN = NaN"
| "jneg PosInf = NegInf"
| "jneg NegInf = PosInf"
| "jneg NegZero = Num 0"
| "jneg (Num a) = (if a = 0 then NegZero else Num (- a))"

text \<open>Addition. The sum of two zeros is negative only when both are; an exact sum of
  zero of two finite numbers is the positive zero.\<close>

fun jadd :: "jsnum \<Rightarrow> jsnum \<Rightarrow> jsnum" where
  "jadd NaN _ = NaN"
| "jadd _ NaN = NaN"
| "jadd PosInf NegInf = NaN"
| "jadd NegInf PosInf = NaN"
| "jadd PosInf _ = PosInf"
| "jadd _ PosInf = PosInf"
| "jadd NegInf _ = NegInf"
| "jadd _ NegInf = NegInf"
| "jadd NegZero b = b"
| "jadd a NegZero = a"
| "jadd (Num a) (Num b) = toDouble (a + b)"

definition jsub :: "jsnum \<Rightarrow> jsnum \<Rightarrow> jsnum" where
  "jsub a b = jadd a (jneg b)"

text \<open>Multiplication and division: the sign of the result is the exclusive or of the
  signs, also for zeros and infinities.\<close>

definition jmul :: "jsnum \<Rightarrow> jsnum \<Rightarrow> jsnum" where
  "jmul a b =
     (if isNaN a \<or> isNaN b then NaN
      else if isInfinite a \<or> isInfinite b then
        (if isZero a \<or> isZero b then NaN else signedInf (isNegative a \<noteq> isNegative b))
      else if isZero a \<or> isZero b then signedZero (isNegative a \<noteq> isNegative b)
      else toDouble (finiteValue a * finiteValue b))"

definition jdiv :: "jsnum \<Rightarrow> jsnum \<Rightarrow> jsnum" where
  "jdiv a b =
     (if isNaN a \<or> isNaN b then NaN
      else if isInfinite a then
        (if isInfinite b then NaN else signedInf (isNegative a \<noteq> isNegative b))
      else if isInfinite b then signedZero (isNegative a \<noteq> isNegative b)
      else if isZero b then
        (if isZero a then NaN else signedInf (isNegative a \<noteq> isNegative b))
      else if isZero a then signedZero (isNegative a \<noteq> isNegative b)
      else toDouble (finiteValue a / finiteValue b))"

text \<open>The comparison \<open>a > b\<close>: false as soon as one side is \<open>NaN\<close>; the two zeros
  are equal.\<close>

fun jgt :: "jsnum \<Rightarrow> jsnum \<Rightarrow> bool" where
  "jgt NaN _ = False"
| "jgt _ NaN = False"
| "jgt PosInf PosInf = False"
| "jgt PosInf _ = True"
| "jgt _ PosInf = False"
| "jgt NegInf _ = False"
| "jgt _ NegInf = True"
| "jgt NegZero NegZero = False"
| "jgt NegZero (Num b) = (b < 0)"
| "jgt (Num a) NegZero = (0 < a)"
| "jgt (Num a) (Num b) = (b < a)"

text \<open>\<open>Math.abs\<close>, and \<open>Math.round\<close>: the nearest integer, ties upwards, and the
  negative zero for a number from -0.5 up to the negative zero.\<close>

fun Math_abs :: "jsnum \<Rightarrow> jsnum" where
  "Math_abs NaN = NaN"
| "Math_abs PosInf = PosInf"
| "Math_abs NegInf = PosInf"
| "Math_abs NegZero = Num 0"
| "Math_abs (Num a) = Num \<bar>a\<bar>"

fun Math_round :: "jsnum \<Rightarrow> jsnum" where
  "Math_round (Num a) =
     (if - (1 / 2) \<le> a \<and> a < 0 then NegZero else Num (of_int \<lfloor>a + 1 / 2\<rfloor>))"
| "Math_round x = x"

text \<open>\<open>x || 0\<close> on a number: \<open>NaN\<close> and both zeros are falsy, and the result is
  then the literal 0.\<close>

fun orZero :: "jsnum \<Rightarrow> jsnum" where
  "orZero NaN = Num 0"
| "orZero NegZero = Num 0"
| "orZero x = x"

text \<open>\<open>xs.length\<close> as a number: an array length is an integer below \<open>2\<^sup>3\<^sup>2\<close> and
  is exact.\<close>

definition len :: "'a list \<Rightarrow> jsnum" where
  "len xs = Num (real (length xs))"

text \<open>
  \<open>x.toFixed(d)\<close> is a decimal rendering of \<open>x\<close> with \<open>d\<close> fraction digits
  (\<open>NaN\<close> and the infinities are rendered by name). The text is kept symbolically, as
  the number and the digit count it was rendered from, optionally followed by a
  percent sign.
\<close>

datatype fixed = ToFixed jsnum nat | ToFixedPct jsnum nat

subsection \<open>JavaScript strings\<close>

text \<open>
  A \<open>char\<close> stands for one code unit below 256. White space is what \<open>trim\<close>,
  \<open>parseInt\<close> and \<open>parseFloat\<close> strip: tab, line feed, vertical tab, form feed,
  carriage return, space and the no-break space.
\<close>

definition isWhiteSpace :: "char \<Rightarrow> bool" where
  "isWhiteSpace c \<longleftrightarrow>
     c \<in> set [CHR 0x09, CHR 0x0A, CHR 0x0B, CHR 0x0C, CHR 0x0D, CHR 0x20, CHR 0xA0]"

definition trimStart :: "string \<Rightarrow> string" where
  "trimStart s = dropWhile isWhiteSpace s"

definition trim :: "string \<Rightarrow> string" where
  "trim s = rev (dropWhile isWhiteSpace (rev (dropWhile isWhiteSpace s)))"

text \<open>\<open>s.includes(t)\<close>: \<open>t\<close> occurs in \<open>s\<close> as a contiguous block.\<close>

fun includes_str :: "string \<Rightarrow> string \<Rightarrow> bool" where
  "includes_str [] t = (t = [])"
| "includes_str (c # cs) t = (take (length t) (c # cs) = t \<or> includes_str cs t)"

text \<open>\<open>s.split(':')\<close>: always at least one part; the empty string gives one empty part.\<close>

fun split_colon :: "string \<Rightarrow> string list" where
  "split_colon [] = [[]]"
| "split_colon (c # cs) =
     (if c = CHR '':'' then [] # split_colon cs
      else (case split_colon cs of
              [] \<Rightarrow> [[c]]
            | p # ps \<Rightarrow> (c # p) # ps))"

subsection \<open>parseInt and parseFloat\<close>

definition isDigit :: "char \<Rightarrow> bool" where
  "isDigit c \<longleftrightarrow> c \<in> set ''0123456789''"

definition isHexDigit :: "char \<Rightarrow> bool" where
  "isHexDigit c \<longleftrightarrow> isDigit c \<or> c \<in> set ''abcdef'' \<or> c \<in> set ''ABCDEF''"

definition digitVal :: "char \<Rightarrow> nat" where
  "digitVal c =
     (if isDigit c then of_char c - 48
      else if c \<in> set ''abcdef'' then of_char c - 87
      else of_char c - 55)"

text \<open>The value of a digit string in a radix, most significant digit first.\<close>

definition digitsVal :: "nat \<Rightarrow> string \<Rightarrow> nat" where
  "digitsVal radix ds = foldl (\<lambda>acc c. acc * radix + digitVal c) 0 ds"

text \<open>A leading sign is read and removed; the result is the sign and the rest.\<close>

fun takeSign :: "string \<Rightarrow> int \<times> string" where
  "takeSign [] = (1, [])"
| "takeSign (c # cs) =
     (if c = CHR ''-'' then (-1, cs)
      else if c = CHR ''+'' then (1, cs)
      else (1, c # cs))"

text \<open>
  \<open>parseInt(s)\<close> with no radix argument: leading white space is skipped, a sign is
  read, a \<open>0x\<close> or \<open>0X\<close> prefix selects radix 16, and the longest run of digits of the
  radix is read as an integer; no digit at all gives \<open>NaN\<close>. The result is the double
  nearest to the signed integer, and a zero with a minus sign is the negative zero. (The
  language lets an implementation ignore decimal digits after the twentieth; the
  correctly rounded value is taken here.)
\<close>

definition parseInt :: "string \<Rightarrow> jsnum" where
  "parseInt inputString =
     (let (sign, S) = takeSign (trimStart inputString);
          hex = (take 2 S = ''0x'' \<or> take 2 S = ''0X'');
          R = (if hex then 16 else 10);
          S' = (if hex then drop 2 S else S);
          Z = takeWhile (if hex then isHexDigit else isDigit) S'
      in if Z = [] then NaN
         else
           (let mathInt = int (digitsVal R Z)
            in if mathInt = 0 then (if sign = - 1 then NegZero else Num 0)
               else toDouble (of_int (sign * mathInt))))"

text \<open>
  The exponent part of a decimal literal: \<open>e\<close> or \<open>E\<close>, an optional sign and at
  least one digit; anything else is not part of the literal and counts as exponent 0.
\<close>

definition exponentPart :: "string \<Rightarrow> int" where
  "exponentPart s =
     (case s of
        [] \<Rightarrow> 0
      | c # cs \<Rightarrow>
          if c = CHR ''e'' \<or> c = CHR ''E'' then
            (let (sign, ds) = takeSign cs; Z = takeWhile isDigit ds
             in if Z = [] then 0 else sign * int (digitsVal 10 Z))
          else 0)"

definition pow10 :: "int \<Rightarrow> real" where
  "pow10 e = (if 0 \<le> e then 10 ^ nat e else 1 / 10 ^ nat (- e))"

text \<open>
  \<open>parseFloat(s)\<close>: leading white space is skipped and the longest prefix that is a
  decimal literal is read: a sign, then either \<open>Infinity\<close> or digits with an optional
  fraction and an optional exponent; no such prefix gives \<open>NaN\<close>. The unsigned
  decimal value is rounded to the nearest double and then negated under a minus sign.
\<close>

definition parseFloat :: "string \<Rightarrow> jsnum" where
  "parseFloat inputString =
     (let (sign, S) = takeSign (trimStart inputString)
      in if take 8 S = ''Infinity'' then (if sign = 1 then PosInf else NegInf)
         else
           (let intDigits = takeWhile isDigit S;
                rest = dropWhile isDigit S;
                hasDot = (rest \<noteq> [] \<and> hd rest = CHR ''.'');
                fracDigits = (if hasDot then takeWhile isDigit (tl rest) else []);
                afterFrac = (if hasDot then dropWhile isDigit (tl rest) else rest)
            in if intDigits = [] \<and> fracDigits = [] then NaN
               else
                 (let unsigned =
                        toDouble ((real (digitsVal 10 intDigits)
                                   + real (digitsVal 10 fracDigits) / 10 ^ length fracDigits)
                                  * pow10 (exponentPart afterFrac))
                  in if sign = 1 then unsigned else jneg unsigned)))"

text \<open>A value read from a row is text or missing; \<open>String(undefined)\<close> is the text
  \<open>undefined\<close>, which is what the parsers see for a missing value.\<close>

definition ToString :: "string option \<Rightarrow> string" where
  "ToString v = (case v of None \<Rightarrow> ''undefined'' | Some s \<Rightarrow> s)"

text \<open>Truthiness of a text-or-missing value: missing and the empty text are falsy.\<close>

definition truthy :: "string option \<Rightarrow> bool" where
  "truthy v = (case v of None \<Rightarrow> False | Some s \<Rightarrow> s \<noteq> [])"

subsection \<open>Rows, errors and method calls\<close>

text \<open>
  A table is a list of rows as the CSV reader delivers them with a header line and no
  type conversion: every field that is present is text, and a field that is absent reads
  as \<open>undefined\<close>. Calling a method on \<open>undefined\<close> throws a \<open>TypeError\<close>; this
  is the only exception the calculator can raise on such rows, and it is a value of the
  model.
\<close>

type_synonym row = "string \<Rightarrow> string option"

datatype error = TypeError

definition bindE :: "error + 'a \<Rightarrow> ('a \<Rightarrow> error + 'b) \<Rightarrow> error + 'b" where
  "bindE m f = (case m of Inl e \<Rightarrow> Inl e | Inr x \<Rightarrow> f x)"

text \<open>\<open>v.trim()\<close> on a value read from a row.\<close>

definition trim_call :: "string option \<Rightarrow> error + string" where
  "trim_call v = (case v of None \<Rightarrow> Inl TypeError | Some s \<Rightarrow> Inr (trim s))"

text \<open>\<open>v || d\<close> for a text default \<open>d\<close>.\<close>

definition orDefault :: "string option \<Rightarrow> string \<Rightarrow> string option" where
  "orDefault v d = (if truthy v then v else Some d)"

text \<open>\<open>xs.filter(p)\<close> for a predicate that may throw: the first exception ends it.\<close>

fun filterE :: "('a \<Rightarrow> error + bool) \<Rightarrow> 'a list \<Rightarrow> error + 'a list" where
  "filterE p [] = Inr []"
| "filterE p (x # xs) =
     (case p x of
        Inl e \<Rightarrow> Inl e
      | Inr b \<Rightarrow> (case filterE p xs of
                    Inl e \<Rightarrow> Inl e
                  | Inr ys \<Rightarrow> Inr (if b then x # ys else ys)))"

subsection \<open>The duration parser\<close>

definition parseTimeToMinutes :: "string option \<Rightarrow> error + jsnum" where
  "parseTimeToMinutes timeStr =
     (if \<not> truthy timeStr then Inr (Num 0)
      else bindE (trim_call timeStr) (\<lambda>t.
        if t = [] then Inr (Num 0)
        else bindE (trim_call timeStr) (\<lambda>cleanTime.
          (case split_colon cleanTime of
             [p0, p1, p2] \<Rightarrow>
               (let hours = orZero (parseInt p0);
                    minutes = orZero (parseInt p1);
                    seconds = orZero (parseFloat p2)
                in Inr (jadd (jadd (jmul hours (Num 60)) minutes) (jdiv seconds (Num 60))))
           | _ \<Rightarrow> Inr (Num 0)))))"

definition parseTimeToSeconds :: "string option \<Rightarrow> error + jsnum" where
  "parseTimeToSeconds timeStr =
     bindE (parseTimeToMinutes timeStr) (\<lambda>m. Inr (jmul m (Num 60)))"

subsection \<open>Step 1: filtering\<close>

definition hasAnswered :: "row \<Rightarrow> bool" where
  "hasAnswered agent \<longleftrightarrow>
     truthy (agent ''Answered'')
     \<and> \<not> isNaN (parseInt (ToString (agent ''Answered'')))
     \<and> jgt (parseInt (ToString (agent ''Answered''))) (Num 0)"

text \<open>\<open>!agent['Agent Name']?.includes('Template')\<close>: a missing name is not a template.\<close>

definition notTemplate :: "row \<Rightarrow> bool" where
  "notTemplate agent =
     (case agent ''Agent Name'' of
        None \<Rightarrow> True
      | Some n \<Rightarrow> \<not> includes_str n ''Template'')"

definition validAgentPerformance :: "row list \<Rightarrow> row list" where
  "validAgentPerformance agentPerformance =
     filter (\<lambda>agent. hasAnswered agent \<and> notTemplate agent) agentPerformance"

definition hasLoggedTime :: "row \<Rightarrow> error + bool" where
  "hasLoggedTime agent =
     (if truthy (agent ''Logged In'')
      then bindE (trim_call (agent ''Logged In'')) (\<lambda>t. Inr (t \<noteq> []))
      else Inr False)"

definition validAgentStatus :: "row list \<Rightarrow> error + row list" where
  "validAgentStatus agentStatus =
     filterE (\<lambda>agent. bindE (hasLoggedTime agent) (\<lambda>h. Inr (h \<and> notTemplate agent)))
       agentStatus"

definition validInteractions :: "row list \<Rightarrow> row list" where
  "validInteractions trainingInteractions =
     filter (\<lambda>interaction. truthy (interaction ''Initial Direction'')
                            \<and> truthy (interaction ''Queue''))
       trainingInteractions"

subsection \<open>Step 2: inbound calls and the reconciliation of the two sources\<close>

definition inboundCalls :: "row list \<Rightarrow> row list" where
  "inboundCalls vi = filter (\<lambda>call. call ''Initial Direction'' = Some ''Inbound'') vi"

definition agentPerformanceTotal :: "row list \<Rightarrow> jsnum" where
  "agentPerformanceTotal vp =
     foldl (\<lambda>sum agent. jadd sum (orZero (parseInt (ToString (agent ''Answered'')))))
       (Num 0) vp"

definition interactionsAnsweredTotal :: "row list \<Rightarrow> jsnum" where
  "interactionsAnsweredTotal vi = len (filter (\<lambda>call. call ''Abandoned'' = Some ''NO'') vi)"

definition callDiscrepancy :: "jsnum \<Rightarrow> jsnum \<Rightarrow> jsnum" where
  "callDiscrepancy a b = Math_abs (jsub a b)"

definition discrepancyPercent :: "jsnum \<Rightarrow> jsnum \<Rightarrow> jsnum" where
  "discrepancyPercent a b =
     (if jgt a (Num 0) then jmul (jdiv (callDiscrepancy a b) a) (Num 100) else Num 0)"

text \<open>The texts the reconciliation chooses between, by their leading words.\<close>

datatype dataQualityFlag = CRITICAL_DISCREPANCY | Acceptable_variance

datatype recommendedAction =
  URGENT_Investigate_missing_agent_data | Review_data_export_timeframes | Monitor_trends

datatype reconciliationResult =
  URGENT_DATA_ISSUE fixed | DATA_INTEGRITY_ISSUE fixed | variance_acceptable fixed

record ('v, 'r) trace =
  values_of :: 'v
  result :: 'r

record agentCoverage =
  performanceAgents :: jsnum
  statusAgents :: jsnum
  missingAgents :: jsnum
  possibleCallsPerMissingAgent :: jsnum

record reconciliationValues =
  rc_agentPerformanceCallTotal :: jsnum
  rc_interactionsAnsweredTotal :: jsnum
  rc_callDiscrepancy :: jsnum
  rc_discrepancyPercent :: fixed
  rc_dataQualityFlag :: dataQualityFlag
  rc_totalInteractions :: jsnum
  rc_inboundInteractions :: jsnum
  rc_outboundInteractions :: jsnum
  rc_agentCoverage :: agentCoverage
  rc_recommendedAction :: recommendedAction

definition reconciliationResult :: "jsnum \<Rightarrow> reconciliationResult" where
  "reconciliationResult dp =
     (if jgt dp (Num 30) then URGENT_DATA_ISSUE (ToFixedPct dp 2)
      else if jgt dp (Num 5) then DATA_INTEGRITY_ISSUE (ToFixedPct dp 2)
      else variance_acceptable (ToFixedPct dp 2))"

definition dataReconciliation ::
  "row list \<Rightarrow> row list \<Rightarrow> row list \<Rightarrow> (reconciliationValues, reconciliationResult) trace" where
  "dataReconciliation vp vs vi =
     (let a = agentPerformanceTotal vp;
          b = interactionsAnsweredTotal vi;
          cd = callDiscrepancy a b;
          dp = discrepancyPercent a b
      in \<lparr> values_of = \<lparr>
             rc_agentPerformanceCallTotal = a,
             rc_interactionsAnsweredTotal = b,
             rc_callDiscrepancy = cd,
             rc_discrepancyPercent = ToFixedPct dp 2,
             rc_dataQualityFlag =
               (if jgt dp (Num 5) then CRITICAL_DISCREPANCY else Acceptable_variance),
             rc_totalInteractions = len vi,
             rc_inboundInteractions = len (inboundCalls vi),
             rc_outboundInteractions = jsub (len vi) (len (inboundCalls vi)),
             rc_agentCoverage = \<lparr>
               performanceAgents = len vp,
               statusAgents = len vs,
               missingAgents = jsub (len vs) (len vp),
               possibleCallsPerMissingAgent =
                 Math_round (jdiv cd (jsub (len vs) (len vp))) \<rparr>,
             rc_recommendedAction =
               (if jgt dp (Num 30) then URGENT_Investigate_missing_agent_data
                else if jgt dp (Num 10) then Review_data_export_timeframes
                else Monitor_trends) \<rparr>,
           result = reconciliationResult dp \<rparr>)"

record filteringValues =
  df_totalAgentPerformanceRows :: jsnum
  df_validAgentPerformanceRows :: jsnum
  df_totalAgentStatusRows :: jsnum
  df_validAgentStatusRows :: jsnum
  df_totalInteractions :: jsnum
  df_validInteractions :: jsnum

text \<open>The result text of the filtering trace names the three valid row counts.\<close>

definition dataFiltering ::
  "row list \<Rightarrow> row list \<Rightarrow> row list \<Rightarrow> row list \<Rightarrow> row list \<Rightarrow> row list
     \<Rightarrow> (filteringValues, jsnum \<times> jsnum \<times> jsnum) trace" where
  "dataFiltering agentPerformance vp agentStatus vs trainingInteractions vi =
     \<lparr> values_of = \<lparr>
         df_totalAgentPerformanceRows = len agentPerformance,
         df_validAgentPerformanceRows = len vp,
         df_totalAgentStatusRows = len agentStatus,
         df_validAgentStatusRows = len vs,
         df_totalInteractions = len trainingInteractions,
         df_validInteractions = len vi \<rparr>,
       result = (len vp, len vs, len vi) \<rparr>"

subsection \<open>Step 3: total calls\<close>

definition totalCallsFromAgentPerformance :: "row list \<Rightarrow> jsnum" where
  "totalCallsFromAgentPerformance vp =
     foldl (\<lambda>sum agent.
              (let answered = orZero (parseInt (ToString (agent ''Answered'')))
               in jadd sum answered))
       (Num 0) vp"

definition totalCallsFromInteractions :: "row list \<Rightarrow> jsnum" where
  "totalCallsFromInteractions vi = len (filter (\<lambda>call. call ''Abandoned'' = Some ''NO'') vi)"

record totalCallsValues =
  tc_totalInteractions :: jsnum
  tc_answeredInteractions :: jsnum
  tc_abandonedInteractions :: jsnum
  tc_agentPerformanceTotal :: jsnum
  tc_discrepancyFromAgentData :: jsnum
  tc_dataSourceUsed :: string

definition totalCallsTrace :: "row list \<Rightarrow> row list \<Rightarrow> (totalCallsValues, jsnum) trace" where
  "totalCallsTrace vp vi =
     (let totalCalls = totalCallsFromInteractions vi
      in \<lparr> values_of = \<lparr>
             tc_totalInteractions = len vi,
             tc_answeredInteractions = totalCalls,
             tc_abandonedInteractions = jsub (len vi) totalCalls,
             tc_agentPerformanceTotal = totalCallsFromAgentPerformance vp,
             tc_discrepancyFromAgentData = jsub totalCalls (totalCallsFromAgentPerformance vp),
             tc_dataSourceUsed = ''Training Interactions (complete dataset)'' \<rparr>,
           result = totalCalls \<rparr>)"

subsection \<open>Step 4: transfer rate\<close>

definition totalTransferred :: "row list \<Rightarrow> jsnum" where
  "totalTransferred vp =
     foldl (\<lambda>sum agent. jadd sum (orZero (parseInt (ToString (agent ''Transferred'')))))
       (Num 0) vp"

definition agentPerformanceTransferRate :: "row list \<Rightarrow> jsnum" where
  "agentPerformanceTransferRate vp =
     (if jgt (totalCallsFromAgentPerformance vp) (Num 0)
      then jmul (jdiv (totalTransferred vp) (totalCallsFromAgentPerformance vp)) (Num 100)
      else Num 0)"

definition mixedSourceTransferRate :: "row list \<Rightarrow> row list \<Rightarrow> jsnum" where
  "mixedSourceTransferRate vp vi =
     (if jgt (totalCallsFromInteractions vi) (Num 0)
      then jmul (jdiv (totalTransferred vp) (totalCallsFromInteractions vi)) (Num 100)
      else Num 0)"

record businessImpact =
  currentReported :: fixed
  ifMixedSources :: fixed
  differenceInTransfers :: jsnum
  riskAssessment :: string

record transferRateValues =
  tr_totalTransferred :: jsnum
  tr_reportedRate :: jsnum
  tr_rateCalculationBasis :: string
  tr_agentPerformanceRate :: jsnum
  tr_mixedSourceRate :: jsnum
  tr_potentialUnderstatement :: fixed
  tr_businessImpact :: businessImpact
  tr_recommendedAction :: string

text \<open>The result text of the transfer-rate trace renders the chosen rate and the
  mixed-source rate, in this order.\<close>

definition transferRateTrace ::
  "row list \<Rightarrow> row list \<Rightarrow> (transferRateValues, fixed \<times> fixed) trace" where
  "transferRateTrace vp vi =
     (let apRate = agentPerformanceTransferRate vp;
          mixedRate = mixedSourceTransferRate vp vi;
          transferRate = apRate
      in \<lparr> values_of = \<lparr>
             tr_totalTransferred = totalTransferred vp,
             tr_reportedRate = transferRate,
             tr_rateCalculationBasis = ''Agent Performance (internally consistent)'',
             tr_agentPerformanceRate = apRate,
             tr_mixedSourceRate = mixedRate,
             tr_potentialUnderstatement =
               ToFixedPct (jmul (jdiv (jsub apRate mixedRate) apRate) (Num 100)) 1,
             tr_businessImpact = \<lparr>
               currentReported = ToFixedPct transferRate 2,
               ifMixedSources = ToFixedPct mixedRate 2,
               differenceInTransfers =
                 Math_round (jmul (jdiv (jsub apRate mixedRate) (Num 100)) (totalTransferred vp)),
               riskAssessment =
                 ''HIGH - Transfer rate accuracy depends on data coverage completeness'' \<rparr>,
             tr_recommendedAction =
               ''URGENT: Verify transfer data exists for all 76,014 calls or use Agent Performance baseline'' \<rparr>,
           result = (ToFixedPct transferRate 2, ToFixedPct mixedRate 2) \<rparr>)"

subsection \<open>Step 5: abandonment rate\<close>

definition abandonedCalls :: "row list \<Rightarrow> row list" where
  "abandonedCalls inbound = filter (\<lambda>call. call ''Abandoned'' = Some ''YES'') inbound"

definition abandonmentRateOf :: "row list \<Rightarrow> jsnum" where
  "abandonmentRateOf inbound =
     (if jgt (len inbound) (Num 0)
      then jmul (jdiv (len (abandonedCalls inbound)) (len inbound)) (Num 100)
      else Num 0)"

record abandonmentValues =
  ab_totalInteractions :: jsnum
  ab_totalInboundCalls :: jsnum
  ab_outboundCallsExcluded :: jsnum
  ab_abandonedInboundCalls :: jsnum
  ab_answeredInboundCalls :: jsnum
  ab_percentage :: jsnum

definition abandonmentTrace :: "row list \<Rightarrow> (abandonmentValues, jsnum) trace" where
  "abandonmentTrace vi =
     (let inbound = inboundCalls vi
      in \<lparr> values_of = \<lparr>
             ab_totalInteractions = len vi,
             ab_totalInboundCalls = len inbound,
             ab_outboundCallsExcluded = jsub (len vi) (len inbound),
             ab_abandonedInboundCalls = len (abandonedCalls inbound),
             ab_answeredInboundCalls = jsub (len inbound) (len (abandonedCalls inbound)),
             ab_percentage = abandonmentRateOf inbound \<rparr>,
           result = abandonmentRateOf inbound \<rparr>)"

subsection \<open>Steps 6 and 7: average speed of answer and average handle time\<close>

definition answeredInbound :: "row list \<Rightarrow> row list" where
  "answeredInbound inbound = filter (\<lambda>call. call ''Abandoned'' = Some ''NO'') inbound"

text \<open>The loop over the answered inbound calls that sums the queue times and keeps the
  first ten as samples; its state is the running total and the samples.\<close>

fun queueTimeLoop :: "row list \<Rightarrow> jsnum \<times> jsnum list \<Rightarrow> error + (jsnum \<times> jsnum list)" where
  "queueTimeLoop [] st = Inr st"
| "queueTimeLoop (call # calls) (totalQueueTime, queueTimeSamples) =
     (case parseTimeToMinutes (orDefault (call ''Total Queue'') ''0:00:00.000'') of
        Inl e \<Rightarrow> Inl e
      | Inr queueTime \<Rightarrow>
          queueTimeLoop calls
            (jadd totalQueueTime queueTime,
             if length queueTimeSamples < 10 then queueTimeSamples @ [queueTime]
             else queueTimeSamples))"

fun handleTimeLoop :: "row list \<Rightarrow> jsnum \<times> jsnum list \<Rightarrow> error + (jsnum \<times> jsnum list)" where
  "handleTimeLoop [] st = Inr st"
| "handleTimeLoop (call # calls) (totalHandleTime, handleTimeSamples) =
     (case parseTimeToMinutes (orDefault (call ''Total Handle'') ''0:00:00.000'') of
        Inl e \<Rightarrow> Inl e
      | Inr handleTime \<Rightarrow>
          (case parseTimeToMinutes (orDefault (call ''Total ACW'') ''0:00:00.000'') of
             Inl e \<Rightarrow> Inl e
           | Inr acwTime \<Rightarrow>
               (let combinedTime = jadd handleTime acwTime
                in handleTimeLoop calls
                     (jadd totalHandleTime combinedTime,
                      if length handleTimeSamples < 10 then handleTimeSamples @ [combinedTime]
                      else handleTimeSamples))))"

definition avgSpeedOfAnswerOf :: "row list \<Rightarrow> jsnum \<Rightarrow> jsnum" where
  "avgSpeedOfAnswerOf answered totalQueueTime =
     (if jgt (len answered) (Num 0) then jdiv totalQueueTime (len answered) else Num 0)"

record speedOfAnswerValues =
  asa_answeredInboundCalls :: jsnum
  asa_totalQueueTimeMinutes :: jsnum
  asa_sampleQueueTimes :: "jsnum list"
  asa_averageMinutes :: jsnum

definition avgSpeedOfAnswerTrace ::
  "row list \<Rightarrow> jsnum \<Rightarrow> jsnum list \<Rightarrow> (speedOfAnswerValues, jsnum) trace" where
  "avgSpeedOfAnswerTrace answered totalQueueTime queueTimeSamples =
     \<lparr> values_of = \<lparr>
         asa_answeredInboundCalls = len answered,
         asa_totalQueueTimeMinutes = totalQueueTime,
         asa_sampleQueueTimes = take 5 queueTimeSamples,
         asa_averageMinutes = avgSpeedOfAnswerOf answered totalQueueTime \<rparr>,
       result = avgSpeedOfAnswerOf answered totalQueueTime \<rparr>"

definition avgHandleTimeOf :: "row list \<Rightarrow> jsnum \<Rightarrow> jsnum" where
  "avgHandleTimeOf answered totalHandleTime =
     (if jgt (len answered) (Num 0) then jdiv totalHandleTime (len answered) else Num 0)"

record handleTimeValues =
  aht_handledCalls :: jsnum
  aht_totalHandleTimeMinutes :: jsnum
  aht_sampleHandleTimes :: "jsnum list"
  aht_averageMinutes :: jsnum

definition avgHandleTimeTrace ::
  "row list \<Rightarrow> jsnum \<Rightarrow> jsnum list \<Rightarrow> (handleTimeValues, jsnum) trace" where
  "avgHandleTimeTrace answered totalHandleTime handleTimeSamples =
     \<lparr> values_of = \<lparr>
         aht_handledCalls = len answered,
         aht_totalHandleTimeMinutes = totalHandleTime,
         aht_sampleHandleTimes = take 5 handleTimeSamples,
         aht_averageMinutes = avgHandleTimeOf answered totalHandleTime \<rparr>,
       result = avgHandleTimeOf answered totalHandleTime \<rparr>"

subsection \<open>Step 8: utilization and shrinkage\<close>

record utilizationSample =
  us_agent :: "string option"
  us_loggedMinutes :: fixed
  us_onQueueMinutes :: fixed
  us_utilization :: fixed

record shrinkageSample =
  ss_agent :: "string option"
  ss_shrinkage :: fixed
  ss_breakTime :: fixed
  ss_mealTime :: fixed
  ss_awayTime :: fixed

text \<open>The variables the loop over the valid status rows updates.\<close>

record statusTotals =
  totalLoggedTime :: jsnum
  totalOnQueueTime :: jsnum
  totalBreakTime :: jsnum
  totalMealTime :: jsnum
  totalAwayTime :: jsnum
  totalNotRespondingTime :: jsnum
  totalOffQueueTime :: jsnum
  utilizationSamples :: "utilizationSample list"
  shrinkageSamples :: "shrinkageSample list"

definition statusTotals0 :: statusTotals where
  "statusTotals0 =
     \<lparr> totalLoggedTime = Num 0, totalOnQueueTime = Num 0, totalBreakTime = Num 0,
       totalMealTime = Num 0, totalAwayTime = Num 0, totalNotRespondingTime = Num 0,
       totalOffQueueTime = Num 0, utilizationSamples = [], shrinkageSamples = [] \<rparr>"

text \<open>The seven durations of one status row, in the order the loop reads them.\<close>

definition statusDurations :: "row \<Rightarrow> error + jsnum list" where
  "statusDurations agent =
     bindE (parseTimeToMinutes (orDefault (agent ''Logged In'') ''0:00:00.000'')) (\<lambda>loggedTime.
     bindE (parseTimeToMinutes (orDefault (agent ''On Queue'') ''0:00:00.000'')) (\<lambda>onQueueTime.
     bindE (parseTimeToMinutes (orDefault (agent ''Break'') ''0:00:00.000'')) (\<lambda>breakTime.
     bindE (parseTimeToMinutes (orDefault (agent ''Meal'') ''0:00:00.000'')) (\<lambda>mealTime.
     bindE (parseTimeToMinutes (orDefault (agent ''Away'') ''0:00:00.000'')) (\<lambda>awayTime.
     bindE (parseTimeToMinutes (orDefault (agent ''Not Responding'') ''0:00:00.000''))
       (\<lambda>notRespondingTime.
     bindE (parseTimeToMinutes (orDefault (agent ''Off Queue'') ''0:00:00.000'')) (\<lambda>offQueueTime.
       Inr [loggedTime, onQueueTime, breakTime, mealTime, awayTime, notRespondingTime,
            offQueueTime])))))))"

text \<open>The body of the loop once the seven durations are read.\<close>

definition statusStep :: "row \<Rightarrow> jsnum list \<Rightarrow> statusTotals \<Rightarrow> statusTotals" where
  "statusStep agent ds st =
     (case ds of
        [loggedTime, onQueueTime, breakTime, mealTime, awayTime, notRespondingTime,
         offQueueTime] \<Rightarrow>
          (let room = (length (utilizationSamples st) < 5);
               agentShrinkage =
                 (if jgt loggedTime (Num 0)
                  then jmul (jdiv (jadd (jadd (jadd (jadd breakTime mealTime) awayTime)
                                     notRespondingTime) offQueueTime) loggedTime) (Num 100)
                  else Num 0)
           in \<lparr> totalLoggedTime = jadd (totalLoggedTime st) loggedTime,
                totalOnQueueTime = jadd (totalOnQueueTime st) onQueueTime,
                totalBreakTime = jadd (totalBreakTime st) breakTime,
                totalMealTime = jadd (totalMealTime st) mealTime,
                totalAwayTime = jadd (totalAwayTime st) awayTime,
                totalNotRespondingTime = jadd (totalNotRespondingTime st) notRespondingTime,
                totalOffQueueTime = jadd (totalOffQueueTime st) offQueueTime,
                utilizationSamples =
                  (if room then
                     utilizationSamples st @
                       [\<lparr> us_agent = agent ''Agent Name'',
                          us_loggedMinutes = ToFixed loggedTime 1,
                          us_onQueueMinutes = ToFixed onQueueTime 1,
                          us_utilization =
                            (if jgt loggedTime (Num 0)
                             then ToFixed (jmul (jdiv onQueueTime loggedTime) (Num 100)) 1
                             else ToFixed (Num 0) 1) \<rparr>]
                   else utilizationSamples st),
                shrinkageSamples =
                  (if room then
                     shrinkageSamples st @
                       [\<lparr> ss_agent = agent ''Agent Name'',
                          ss_shrinkage = ToFixedPct agentShrinkage 1,
                          ss_breakTime = ToFixed breakTime 1,
                          ss_mealTime = ToFixed mealTime 1,
                          ss_awayTime = ToFixed awayTime 1 \<rparr>]
                   else shrinkageSamples st) \<rparr>)
      | _ \<Rightarrow> st)"

fun statusLoop :: "row list \<Rightarrow> statusTotals \<Rightarrow> error + statusTotals" where
  "statusLoop [] st = Inr st"
| "statusLoop (agent # agents) st =
     (case statusDurations agent of
        Inl e \<Rightarrow> Inl e
      | Inr ds \<Rightarrow> statusLoop agents (statusStep agent ds st))"

definition allAnsweredCalls :: "row list \<Rightarrow> row list" where
  "allAnsweredCalls vi = filter (\<lambda>call. call ''Abandoned'' = Some ''NO'') vi"

fun productiveTimeLoop :: "row list \<Rightarrow> jsnum \<Rightarrow> error + jsnum" where
  "productiveTimeLoop [] totalProductiveTime = Inr totalProductiveTime"
| "productiveTimeLoop (call # calls) totalProductiveTime =
     (case parseTimeToMinutes (orDefault (call ''Total Handle'') ''0:00:00.000'') of
        Inl e \<Rightarrow> Inl e
      | Inr handle \<Rightarrow>
          (case parseTimeToMinutes (orDefault (call ''Total ACW'') ''0:00:00.000'') of
             Inl e \<Rightarrow> Inl e
           | Inr acw \<Rightarrow> productiveTimeLoop calls (jadd (jadd totalProductiveTime handle) acw)))"

definition productiveUtilizationOf :: "jsnum \<Rightarrow> statusTotals \<Rightarrow> jsnum" where
  "productiveUtilizationOf totalProductiveTime st =
     (if jgt (totalLoggedTime st) (Num 0)
      then jmul (jdiv totalProductiveTime (totalLoggedTime st)) (Num 100)
      else Num 0)"

definition onQueueUtilizationOf :: "statusTotals \<Rightarrow> jsnum" where
  "onQueueUtilizationOf st =
     (if jgt (totalLoggedTime st) (Num 0)
      then jmul (jdiv (totalOnQueueTime st) (totalLoggedTime st)) (Num 100)
      else Num 0)"

definition totalShrinkageTime :: "statusTotals \<Rightarrow> jsnum" where
  "totalShrinkageTime st =
     jadd (jadd (jadd (jadd (totalBreakTime st) (totalMealTime st)) (totalAwayTime st))
            (totalNotRespondingTime st)) (totalOffQueueTime st)"

definition shrinkageOf :: "statusTotals \<Rightarrow> jsnum" where
  "shrinkageOf st =
     (if jgt (totalLoggedTime st) (Num 0)
      then jmul (jdiv (totalShrinkageTime st) (totalLoggedTime st)) (Num 100)
      else Num 0)"

record productiveValues =
  pu_totalProductiveTimeMinutes :: fixed
  pu_totalLoggedTimeMinutes :: fixed
  pu_productiveCallsAnalyzed :: jsnum
  pu_percentage :: jsnum

record onQueueValues =
  oq_totalOnQueueTimeMinutes :: fixed
  oq_totalLoggedTimeMinutes :: fixed
  oq_utilizationSamples :: "utilizationSample list"
  oq_percentage :: jsnum

record shrinkageValues =
  sh_totalBreakTime :: fixed
  sh_totalMealTime :: fixed
  sh_totalAwayTime :: fixed
  sh_totalNotRespondingTime :: fixed
  sh_totalOffQueueTime :: fixed
  sh_totalShrinkageTime :: fixed
  sh_totalLoggedTime :: fixed
  sh_agentSamples :: "shrinkageSample list"
  sh_percentage :: jsnum

definition productiveUtilizationTrace ::
  "row list \<Rightarrow> jsnum \<Rightarrow> statusTotals \<Rightarrow> (productiveValues, jsnum) trace" where
  "productiveUtilizationTrace answeredCalls totalProductiveTime st =
     \<lparr> values_of = \<lparr>
         pu_totalProductiveTimeMinutes = ToFixed totalProductiveTime 1,
         pu_totalLoggedTimeMinutes = ToFixed (totalLoggedTime st) 1,
         pu_productiveCallsAnalyzed = len answeredCalls,
         pu_percentage = productiveUtilizationOf totalProductiveTime st \<rparr>,
       result = productiveUtilizationOf totalProductiveTime st \<rparr>"

definition onQueueUtilizationTrace :: "statusTotals \<Rightarrow> (onQueueValues, jsnum) trace" where
  "onQueueUtilizationTrace st =
     \<lparr> values_of = \<lparr>
         oq_totalOnQueueTimeMinutes = ToFixed (totalOnQueueTime st) 1,
         oq_totalLoggedTimeMinutes = ToFixed (totalLoggedTime st) 1,
         oq_utilizationSamples = utilizationSamples st,
         oq_percentage = onQueueUtilizationOf st \<rparr>,
       result = onQueueUtilizationOf st \<rparr>"

definition shrinkageTrace :: "statusTotals \<Rightarrow> (shrinkageValues, jsnum) trace" where
  "shrinkageTrace st =
     \<lparr> values_of = \<lparr>
         sh_totalBreakTime = ToFixed (totalBreakTime st) 1,
         sh_totalMealTime = ToFixed (totalMealTime st) 1,
         sh_totalAwayTime = ToFixed (totalAwayTime st) 1,
         sh_totalNotRespondingTime = ToFixed (totalNotRespondingTime st) 1,
         sh_totalOffQueueTime = ToFixed (totalOffQueueTime st) 1,
         sh_totalShrinkageTime = ToFixed (totalShrinkageTime st) 1,
         sh_totalLoggedTime = ToFixed (totalLoggedTime st) 1,
         sh_agentSamples = shrinkageSamples st,
         sh_percentage = shrinkageOf st \<rparr>,
       result = shrinkageOf st \<rparr>"

subsection \<open>The report\<close>

text \<open>
  The report holds the eight indicators and one trace per key of
  \<open>calculationDetails\<close>. Of each trace the values and the result are kept; the
  formula caption is a constant text and the calculation sentence is rendered from the
  same values. The console output and the comparison with the fixed baseline, which is
  only logged, are not part of the report.
\<close>

record calculationDetails =
  cd_dataReconciliation :: "(reconciliationValues, reconciliationResult) trace"
  cd_dataFiltering :: "(filteringValues, jsnum \<times> jsnum \<times> jsnum) trace"
  cd_totalCalls :: "(totalCallsValues, jsnum) trace"
  cd_transferRate :: "(transferRateValues, fixed \<times> fixed) trace"
  cd_abandonmentRate :: "(abandonmentValues, jsnum) trace"
  cd_avgSpeedOfAnswer :: "(speedOfAnswerValues, jsnum) trace"
  cd_avgHandleTime :: "(handleTimeValues, jsnum) trace"
  cd_productiveUtilization :: "(productiveValues, jsnum) trace"
  cd_onQueueUtilization :: "(onQueueValues, jsnum) trace"
  cd_shrinkage :: "(shrinkageValues, jsnum) trace"

record DetailedMetrics =
  totalCalls :: jsnum
  transferRate :: jsnum
  productiveUtilization :: jsnum
  onQueueUtilization :: jsnum
  avgSpeedOfAnswer :: jsnum
  abandonmentRate :: jsnum
  avgHandleTime :: jsnum
  shrinkage :: jsnum
  calculationDetails :: calculationDetails

text \<open>The returned object, from the filtered tables and the results of the four loops.\<close>

definition report ::
  "row list \<Rightarrow> row list \<Rightarrow> row list \<Rightarrow> row list \<Rightarrow> row list \<Rightarrow> row list
     \<Rightarrow> jsnum \<times> jsnum list \<Rightarrow> jsnum \<times> jsnum list \<Rightarrow> statusTotals \<Rightarrow> jsnum
     \<Rightarrow> DetailedMetrics" where
  "report agentPerformance vp agentStatus vs trainingInteractions vi queue handle st
       totalProductiveTime =
     (let inbound = inboundCalls vi;
          answered = answeredInbound inbound;
          totalQueueTime = fst queue;
          queueTimeSamples = snd queue;
          totalHandleTime = fst handle;
          handleTimeSamples = snd handle
      in \<lparr> totalCalls = totalCallsFromInteractions vi,
           transferRate = agentPerformanceTransferRate vp,
           productiveUtilization = productiveUtilizationOf totalProductiveTime st,
           onQueueUtilization = onQueueUtilizationOf st,
           avgSpeedOfAnswer = avgSpeedOfAnswerOf answered totalQueueTime,
           abandonmentRate = abandonmentRateOf inbound,
           avgHandleTime = avgHandleTimeOf answered totalHandleTime,
           shrinkage = shrinkageOf st,
           calculationDetails = \<lparr>
             cd_dataReconciliation = dataReconciliation vp vs vi,
             cd_dataFiltering =
               dataFiltering agentPerformance vp agentStatus vs trainingInteractions vi,
             cd_totalCalls = totalCallsTrace vp vi,
             cd_transferRate = transferRateTrace vp vi,
             cd_abandonmentRate = abandonmentTrace vi,
             cd_avgSpeedOfAnswer = avgSpeedOfAnswerTrace answered totalQueueTime queueTimeSamples,
             cd_avgHandleTime = avgHandleTimeTrace answered totalHandleTime handleTimeSamples,
             cd_productiveUtilization =
               productiveUtilizationTrace (allAnsweredCalls vi) totalProductiveTime st,
             cd_onQueueUtilization = onQueueUtilizationTrace st,
             cd_shrinkage = shrinkageTrace st \<rparr> \<rparr>)"

text \<open>The calculator: the filters, then the loops in the order of the source, then the
  report. An exception in a filter or a loop ends the computation.\<close>

definition calculateDetailedMetrics ::
  "row list \<Rightarrow> row list \<Rightarrow> row list \<Rightarrow> row list \<Rightarrow> error + DetailedMetrics" where
  "calculateDetailedMetrics agentPerformance agentStatus trainingInteractions timeSummary =
     (let vp = validAgentPerformance agentPerformance
      in bindE (validAgentStatus agentStatus) (\<lambda>vs.
         (let vi = validInteractions trainingInteractions;
              answered = answeredInbound (inboundCalls vi)
          in bindE (queueTimeLoop answered (Num 0, [])) (\<lambda>queue.
             bindE (handleTimeLoop answered (Num 0, [])) (\<lambda>handle.
             bindE (statusLoop vs statusTotals0) (\<lambda>st.
             bindE (productiveTimeLoop (allAnsweredCalls vi) (Num 0)) (\<lambda>totalProductiveTime.
               Inr (report agentPerformance vp agentStatus vs trainingInteractions vi
                      queue handle st totalProductiveTime))))))))"

subsection \<open>The abandonment rate of the dashboard component\<close>

text \<open>The dashboard component computes its own indicators from the same tables; this is
  its interaction filter and its abandonment rate.\<close>

definition dashboard_validInteractions :: "row list \<Rightarrow> row list" where
  "dashboard_validInteractions trainingInteractions =
     filter (\<lambda>interaction. truthy (interaction ''Initial Direction'')) trainingInteractions"

definition dashboard_abandonmentRate :: "row list \<Rightarrow> jsnum" where
  "dashboard_abandonmentRate trainingInteractions =
     (let inbound = filter (\<lambda>call. call ''Initial Direction'' = Some ''Inbound'')
                      (dashboard_validInteractions trainingInteractions);
          abandoned = filter (\<lambda>call. call ''Abandoned'' = Some ''YES'') inbound
      in if jgt (len inbound) (Num 0)
         then jmul (jdiv (len abandoned) (len inbound)) (Num 100)
         else Num 0)"

subsection \<open>Notions used to state the properties\<close>

text \<open>The numbers of a count column: each cell read by \<open>parseInt\<close>, a cell without a
  number counting 0; and the sum of a list of numbers as the program adds them, from
  0 and from left to right.\<close>

definition column :: "string \<Rightarrow> row list \<Rightarrow> jsnum list" where
  "column field rows = map (\<lambda>r. orZero (parseInt (ToString (r field)))) rows"

definition jsSum :: "jsnum list \<Rightarrow> jsnum" where
  "jsSum xs = foldl jadd (Num 0) xs"

text \<open>Hours, minutes and seconds as minutes, in the arithmetic of the program.\<close>

definition minutesOf :: "jsnum \<Rightarrow> jsnum \<Rightarrow> jsnum \<Rightarrow> jsnum" where
  "minutesOf hours minutes seconds =
     jadd (jadd (jmul hours (Num 60)) minutes) (jdiv seconds (Num 60))"

text \<open>A row written out as its cells, each with its field name.\<close>

definition csvRow :: "(string \<times> string) list \<Rightarrow> row" where
  "csvRow cells = map_of cells"

section \<open>Properties\<close>

subsection \<open>Rounding to the nearest double\<close>

lemma pow2_powr: "pow2 e = 2 powr (real_of_int e)"
proof (cases "0 \<le> e")
  case True
  then have "2 powr (real_of_int e) = 2 powr (real (nat e))" by simp
  also have "\<dots> = 2 ^ nat e" by (rule powr_realpow) simp
  finally show ?thesis using True by (simp add: pow2_def)
next
  case False
  then have "2 powr (real_of_int e) = 2 powr (- real (nat (- e)))" by simp
  also have "\<dots> = 1 / 2 powr (real (nat (- e)))" by (simp add: powr_minus_divide)
  also have "\<dots> = 1 / 2 ^ nat (- e)" by (simp add: powr_realpow)
  finally show ?thesis using False by (simp add: pow2_def)
qed

lemma pow2_pos [simp]: "0 < pow2 e"
  by (simp add: pow2_powr)

lemma pow2_nonneg [simp]: "0 \<le> pow2 e"
  by (simp add: pow2_powr)

lemma pow2_add: "pow2 (a + b) = pow2 a * pow2 b"
  by (simp add: pow2_powr powr_add)

lemma pow2_mono: "a \<le> b \<Longrightarrow> pow2 a \<le> pow2 b"
  by (simp add: pow2_powr)

lemma pow2_less_iff: "pow2 a < pow2 b \<longleftrightarrow> a < b"
  by (simp add: pow2_powr)

lemma pow2_nat: "0 \<le> e \<Longrightarrow> pow2 e = 2 ^ nat e"
  by (simp add: pow2_def)

lemma floorLog2_bounds:
  assumes "0 < x"
  shows "pow2 (floorLog2 x) \<le> x" and "x < pow2 (floorLog2 x + 1)"
proof -
  have "pow2 (floorLog2 x) \<le> x \<and> x < pow2 (floorLog2 x + 1)"
  proof (cases "1 \<le> x")
    case True
    then have pos: "0 < \<lfloor>x\<rfloor>" by linarith
    let ?b = "bitlen \<lfloor>x\<rfloor>"
    from bitlen_bounds[OF pos] have b: "2 ^ nat (?b - 1) \<le> \<lfloor>x\<rfloor>" "\<lfloor>x\<rfloor> < 2 ^ nat ?b"
      by auto
    have b1: "1 \<le> ?b" using pos bitlen_eq_zero_iff[of "\<lfloor>x\<rfloor>"] bitlen_nonneg[of "\<lfloor>x\<rfloor>"]
      by linarith
    have "real_of_int (2 ^ nat (?b - 1)) \<le> real_of_int \<lfloor>x\<rfloor>" using b(1) by linarith
    then have lo: "(2::real) ^ nat (?b - 1) \<le> x" by (simp add: le_floor_iff)
    have "\<lfloor>x\<rfloor> + 1 \<le> 2 ^ nat ?b" using b(2) by linarith
    then have "real_of_int (\<lfloor>x\<rfloor> + 1) \<le> real_of_int (2 ^ nat ?b)"
      by (simp only: of_int_le_iff)
    moreover have "x < real_of_int (\<lfloor>x\<rfloor> + 1)" by simp
    ultimately have "x < real_of_int (2 ^ nat ?b)" by linarith
    then have hi: "x < (2::real) ^ nat ?b" by simp
    show ?thesis using True lo hi b1 by (simp add: floorLog2_def pow2_def)
  next
    case False
    with assms have x1: "x < 1" by simp
    let ?y = "1 / x"
    have y1: "1 < ?y" using assms x1 by simp
    let ?N = "\<lceil>?y\<rceil>"
    have N2: "2 \<le> ?N" using y1 by linarith
    then have pos: "0 < ?N - 1" by linarith
    let ?c = "bitlen (?N - 1)"
    from bitlen_bounds[OF pos] have c: "2 ^ nat (?c - 1) \<le> ?N - 1" "?N - 1 < 2 ^ nat ?c"
      by auto
    have c1: "1 \<le> ?c" using pos bitlen_eq_zero_iff[of "?N - 1"] bitlen_nonneg[of "?N - 1"]
      by linarith
    have "real_of_int (?N - 1) < ?y" by linarith
    moreover have "real_of_int (2 ^ nat (?c - 1)) \<le> real_of_int (?N - 1)"
      using c(1) by (simp only: of_int_le_iff)
    ultimately have "real_of_int (2 ^ nat (?c - 1)) < ?y" by (rule le_less_trans[rotated])
    then have lo: "(2::real) ^ nat (?c - 1) < ?y" by simp
    have "?N \<le> 2 ^ nat ?c" using c(2) by linarith
    then have "real_of_int ?N \<le> real_of_int (2 ^ nat ?c)" by (simp only: of_int_le_iff)
    then have "real_of_int ?N \<le> (2::real) ^ nat ?c" by simp
    moreover have "?y \<le> real_of_int ?N" by (rule le_of_int_ceiling)
    ultimately have hi: "?y \<le> (2::real) ^ nat ?c" by (rule order_trans[rotated])
    have A: "1 / 2 ^ nat ?c \<le> x"
    proof -
      have "1 \<le> x * 2 ^ nat ?c" using hi assms by (simp add: field_simps)
      then show ?thesis by (simp add: field_simps)
    qed
    have B: "x < 1 / 2 ^ nat (?c - 1)"
    proof -
      have "x * 2 ^ nat (?c - 1) < 1" using lo assms by (simp add: field_simps)
      then show ?thesis by (simp add: field_simps)
    qed
    have eq: "floorLog2 x = - ?c" using False by (simp add: floorLog2_def)
    have p1: "pow2 (- ?c) = 1 / 2 ^ nat ?c" using c1 by (simp add: pow2_def)
    have p2: "pow2 (- ?c + 1) = 1 / 2 ^ nat (?c - 1)"
    proof (cases "?c = 1")
      case True
      then show ?thesis by (simp add: pow2_def)
    next
      case False
      with c1 have "- ?c + 1 < 0" by linarith
      moreover have "- (- ?c + 1) = ?c - 1" by simp
      ultimately show ?thesis by (simp add: pow2_def)
    qed
    show ?thesis using A B by (simp only: eq p1 p2)
  qed
  then show "pow2 (floorLog2 x) \<le> x" and "x < pow2 (floorLog2 x + 1)" by auto
qed

lemma roundHalfEven_ge: "real_of_int m \<le> q \<Longrightarrow> m \<le> roundHalfEven q"
proof -
  assume "real_of_int m \<le> q"
  then have "m \<le> \<lfloor>q\<rfloor>" by (simp add: le_floor_iff)
  then show ?thesis by (auto simp: roundHalfEven_def Let_def)
qed

lemma roundHalfEven_le: "q \<le> real_of_int m \<Longrightarrow> roundHalfEven q \<le> m"
proof -
  assume a: "q \<le> real_of_int m"
  show ?thesis
  proof (cases "q = real_of_int m")
    case True
    then show ?thesis by (simp add: roundHalfEven_def Let_def)
  next
    case False
    with a have "q < real_of_int m" by simp
    then have "\<lfloor>q\<rfloor> < m" by (simp add: floor_less_iff)
    then show ?thesis by (auto simp: roundHalfEven_def Let_def)
  qed
qed

lemma toDouble_ge_one:
  assumes "1 \<le> x"
  shows "toDouble x = PosInf \<or> (\<exists>y. toDouble x = Num y \<and> 1 \<le> y)"
proof -
  have pos: "0 < x" using assms by simp
  let ?L = "floorLog2 x"
  have "pow2 0 \<le> x" using assms by (simp add: pow2_def)
  also have "x < pow2 (?L + 1)" by (rule floorLog2_bounds[OF pos])
  finally have "0 < ?L + 1" by (simp add: pow2_less_iff)
  then have L0: "0 \<le> ?L" by simp
  then have e: "max (?L - 52) (- 1074) = ?L - 52" by simp
  let ?e = "?L - 52"
  let ?n = "roundHalfEven (x / pow2 ?e)"
  have "pow2 ?L = pow2 52 * pow2 ?e" using pow2_add[of 52 ?e] by simp
  then have "pow2 52 * pow2 ?e \<le> x" using floorLog2_bounds(1)[OF pos] by simp
  then have "pow2 52 \<le> x / pow2 ?e" by (simp add: field_simps)
  then have "real_of_int (2 ^ 52) \<le> x / pow2 ?e" by (simp add: pow2_def)
  then have n: "2 ^ 52 \<le> ?n" by (rule roundHalfEven_ge)
  then have n0: "?n \<noteq> 0" by simp
  have "pow2 ?L = 2 ^ 52 * pow2 ?e" using pow2_add[of 52 ?e] by (simp add: pow2_def)
  also have "\<dots> \<le> real_of_int ?n * pow2 ?e"
  proof -
    have "real_of_int (2 ^ 52) \<le> real_of_int ?n" using n by linarith
    then show ?thesis by simp
  qed
  finally have "pow2 ?L \<le> real_of_int ?n * pow2 ?e" .
  moreover have "1 \<le> pow2 ?L" using pow2_mono[OF L0] by (simp add: pow2_def)
  ultimately have y: "1 \<le> real_of_int ?n * pow2 ?e" by linarith
  have x0: "x \<noteq> 0" "\<not> x < 0" "\<bar>x\<bar> = x" using pos by auto
  show ?thesis
    using n0 y by (simp add: toDouble_def Let_def x0 e)
qed

lemma toDouble_bounded:
  assumes "0 \<le> x" "x \<le> real_of_int N" "N < 2 ^ 53"
  shows "\<exists>y. toDouble x = Num y \<and> 0 \<le> y \<and> y \<le> real_of_int N"
proof (cases "x = 0")
  case True
  then show ?thesis using assms by (simp add: toDouble_def)
next
  case False
  with assms have pos: "0 < x" by simp
  let ?L = "floorLog2 x"
  have "real_of_int N < real_of_int (2 ^ 53)" using assms(3) by (simp only: of_int_less_iff)
  then have N53: "real_of_int N < 2 ^ 53" by simp
  with assms(2) have "x < pow2 53" by (simp add: pow2_def)
  with floorLog2_bounds(1)[OF pos] have "pow2 ?L < pow2 53" by linarith
  then have L: "?L \<le> 52" by (simp add: pow2_less_iff)
  let ?e = "max (?L - 52) (- 1074)"
  have e0: "?e \<le> 0" using L by simp
  let ?k = "nat (- ?e)"
  have pe: "pow2 ?e = 1 / 2 ^ ?k"
  proof (cases "?e = 0")
    case True
    then show ?thesis by (simp add: pow2_def)
  next
    case False
    with e0 have "?e < 0" by linarith
    then show ?thesis by (simp add: pow2_def)
  qed
  let ?n = "roundHalfEven (x / pow2 ?e)"
  have q: "x / pow2 ?e = x * 2 ^ ?k" by (simp add: pe)
  have "x * 2 ^ ?k \<le> real_of_int N * 2 ^ ?k" using assms(2) by simp
  then have "x / pow2 ?e \<le> real_of_int (N * 2 ^ ?k)" by (simp add: q)
  then have nle: "?n \<le> N * 2 ^ ?k" by (rule roundHalfEven_le)
  have "real_of_int 0 \<le> x / pow2 ?e" using pos by simp
  then have nge: "0 \<le> ?n" by (rule roundHalfEven_ge)
  have y_le: "real_of_int ?n * pow2 ?e \<le> real_of_int N"
  proof -
    have "real_of_int ?n \<le> real_of_int (N * 2 ^ ?k)" using nle by linarith
    then have "real_of_int ?n \<le> real_of_int N * 2 ^ ?k" by simp
    then show ?thesis by (simp add: pe field_simps)
  qed
  have y_ge: "0 \<le> real_of_int ?n * pow2 ?e" using nge by simp
  have small: "\<not> 2 ^ 1024 \<le> \<bar>real_of_int ?n * pow2 ?e\<bar>"
  proof -
    have "real_of_int N < 2 ^ 1024"
    proof -
      have "(2::real) ^ 53 \<le> 2 ^ 1024" by (rule power_increasing) simp_all
      with N53 show ?thesis by linarith
    qed
    with y_le y_ge show ?thesis by linarith
  qed
  have x0: "x \<noteq> 0" "\<not> x < 0" "\<bar>x\<bar> = x" using pos by auto
  show ?thesis
  proof (cases "?n = 0")
    case True
    then show ?thesis using assms nge by (simp add: toDouble_def Let_def x0)
  next
    case False
    then show ?thesis using small y_le y_ge by (simp add: toDouble_def Let_def x0)
  qed
qed

lemma toDouble_negative:
  assumes "x < 0"
  shows "\<not> jgt (toDouble x) (Num 0)"
proof -
  let ?e = "max (floorLog2 \<bar>x\<bar> - 52) (- 1074)"
  let ?n = "roundHalfEven (x / pow2 ?e)"
  have "x / pow2 ?e \<le> real_of_int 0" using assms by (simp add: divide_le_0_iff)
  then have "?n \<le> 0" by (rule roundHalfEven_le)
  then have "real_of_int ?n * pow2 ?e \<le> 0" by (simp add: mult_le_0_iff)
  then show ?thesis using assms by (simp add: toDouble_def Let_def)
qed

lemma toDouble_zero [simp]: "toDouble 0 = Num 0"
  by (simp add: toDouble_def)

lemma bitlen_numeral: "bitlen (numeral k) = bitlen (numeral k div 2) + 1"
  by (subst compute_bitlen) simp

lemma bitlen_one: "bitlen 1 = 1"
  by (subst compute_bitlen) simp

lemmas double_eval =
  toDouble_def floorLog2_def roundHalfEven_def pow2_def bitlen_numeral bitlen_one
  jmul_def jdiv_def jsub_def signedInf_def signedZero_def Let_def

text \<open>Rounding at work: inexact fractions, ties going to the even significand, the
  overflow threshold, and the subnormal range with its signed underflow.\<close>

lemma toDouble_examples:
  "toDouble (1 / 10) = Num (3602879701896397 / 2 ^ 55)"
  "toDouble (- (1 / 3)) = Num (- (6004799503160661 / 2 ^ 54))"
  "toDouble (2 ^ 53 + 1) = Num (2 ^ 53)"
  "toDouble (2 ^ 53 + 3) = Num (2 ^ 53 + 4)"
  "toDouble (2 ^ 1024 - 2 ^ 970) = PosInf"
  "toDouble (2 ^ 1024 - 2 ^ 970 - 1) = Num (2 ^ 1024 - 2 ^ 971)"
  "toDouble (- (10 ^ 400)) = NegInf"
  "toDouble (1 / 2 ^ 1074) = Num (1 / 2 ^ 1074)"
  "toDouble (1 / 2 ^ 1075) = Num 0"
  "toDouble (- (1 / 2 ^ 1076)) = NegZero"
  "toDouble (3 / 2 ^ 1075) = Num (2 / 2 ^ 1074)"
  by (simp_all add: double_eval)

lemmas parse_eval =
  parseTimeToMinutes_def trim_def trimStart_def isWhiteSpace_def parseInt_def parseFloat_def
  isDigit_def isHexDigit_def digitsVal_def digitVal_def exponentPart_def pow10_def double_eval

subsection \<open>The calculator never throws\<close>

lemma bindE_simps [simp]: "bindE (Inr x) f = f x" "bindE (Inl e) f = Inl e"
  by (simp_all add: bindE_def)

lemma trim_call_Some [simp]: "trim_call (Some s) = Inr (trim s)"
  by (simp add: trim_call_def)

lemma truthy_simps [simp]: "truthy None = False" "truthy (Some s) = (s \<noteq> [])"
  by (simp_all add: truthy_def)

lemma parseTimeToMinutes_total: "\<exists>n. parseTimeToMinutes v = Inr n"
  by (cases v) (auto simp: parseTimeToMinutes_def Let_def split: list.splits)

lemma queueTimeLoop_total: "\<exists>r. queueTimeLoop calls st = Inr r"
proof (induction calls arbitrary: st)
  case Nil
  show ?case by simp
next
  case (Cons call calls)
  obtain t ss where st: "st = (t, ss)" by (cases st)
  obtain n where n: "parseTimeToMinutes (orDefault (call ''Total Queue'') ''0:00:00.000'') = Inr n"
    using parseTimeToMinutes_total by blast
  show ?case using Cons.IH by (simp add: st n)
qed

lemma handleTimeLoop_total: "\<exists>r. handleTimeLoop calls st = Inr r"
proof (induction calls arbitrary: st)
  case Nil
  show ?case by simp
next
  case (Cons call calls)
  obtain t ss where st: "st = (t, ss)" by (cases st)
  obtain n where n: "parseTimeToMinutes (orDefault (call ''Total Handle'') ''0:00:00.000'') = Inr n"
    using parseTimeToMinutes_total by blast
  obtain k where k: "parseTimeToMinutes (orDefault (call ''Total ACW'') ''0:00:00.000'') = Inr k"
    using parseTimeToMinutes_total by blast
  show ?case using Cons.IH by (simp add: st n k Let_def)
qed

lemma productiveTimeLoop_total: "\<exists>r. productiveTimeLoop calls acc = Inr r"
proof (induction calls arbitrary: acc)
  case Nil
  show ?case by simp
next
  case (Cons call calls)
  obtain n where n: "parseTimeToMinutes (orDefault (call ''Total Handle'') ''0:00:00.000'') = Inr n"
    using parseTimeToMinutes_total by blast
  obtain k where k: "parseTimeToMinutes (orDefault (call ''Total ACW'') ''0:00:00.000'') = Inr k"
    using parseTimeToMinutes_total by blast
  show ?case using Cons.IH by (simp add: n k)
qed

lemma statusDurations_total: "\<exists>ds. statusDurations agent = Inr ds"
proof -
  have p: "\<And>v. \<exists>n. parseTimeToMinutes v = Inr n" by (rule parseTimeToMinutes_total)
  obtain a where a: "parseTimeToMinutes (orDefault (agent ''Logged In'') ''0:00:00.000'') = Inr a" using p by blast
  obtain b where b: "parseTimeToMinutes (orDefault (agent ''On Queue'') ''0:00:00.000'') = Inr b" using p by blast
  obtain c where c: "parseTimeToMinutes (orDefault (agent ''Break'') ''0:00:00.000'') = Inr c" using p by blast
  obtain d where d: "parseTimeToMinutes (orDefault (agent ''Meal'') ''0:00:00.000'') = Inr d" using p by blast
  obtain e where e: "parseTimeToMinutes (orDefault (agent ''Away'') ''0:00:00.000'') = Inr e" using p by blast
  obtain f where f: "parseTimeToMinutes (orDefault (agent ''Not Responding'') ''0:00:00.000'') = Inr f" using p by blast
  obtain g where g: "parseTimeToMinutes (orDefault (agent ''Off Queue'') ''0:00:00.000'') = Inr g" using p by blast
  show ?thesis by (simp add: statusDurations_def a b c d e f g)
qed

lemma statusLoop_total: "\<exists>r. statusLoop agents st = Inr r"
proof (induction agents arbitrary: st)
  case Nil
  show ?case by simp
next
  case (Cons agent agents)
  obtain ds where ds: "statusDurations agent = Inr ds"
    using statusDurations_total by blast
  show ?case using Cons.IH by (simp add: ds)
qed

lemma hasLoggedTime_total: "\<exists>b. hasLoggedTime agent = Inr b"
  by (cases "agent ''Logged In''") (auto simp: hasLoggedTime_def)

lemma filterE_total:
  assumes "\<And>x. \<exists>b. p x = Inr b"
  shows "\<exists>ys. filterE p xs = Inr ys"
proof (induction xs)
  case Nil
  show ?case by simp
next
  case (Cons x xs)
  obtain b where b: "p x = Inr b" using assms by blast
  show ?case using Cons.IH by (auto simp: b)
qed

lemma validAgentStatus_total: "\<exists>vs. validAgentStatus agentStatus = Inr vs"
  unfolding validAgentStatus_def
proof (rule filterE_total)
  fix agent :: row
  obtain b where "hasLoggedTime agent = Inr b" using hasLoggedTime_total by blast
  then show "\<exists>b. bindE (hasLoggedTime agent) (\<lambda>h. Inr (h \<and> notTemplate agent)) = Inr b"
    by simp
qed

lemma calculate_shape:
  "\<exists>vs queue handle st tp.
     validAgentStatus agentStatus = Inr vs \<and>
     statusLoop vs statusTotals0 = Inr st \<and>
     calculateDetailedMetrics agentPerformance agentStatus trainingInteractions timeSummary =
       Inr (report agentPerformance (validAgentPerformance agentPerformance) agentStatus vs
              trainingInteractions (validInteractions trainingInteractions) queue handle st tp)"
proof -
  obtain vs where vs: "validAgentStatus agentStatus = Inr vs"
    using validAgentStatus_total by blast
  let ?answered = "answeredInbound (inboundCalls (validInteractions trainingInteractions))"
  obtain queue where q: "queueTimeLoop ?answered (Num 0, []) = Inr queue"
    using queueTimeLoop_total by blast
  obtain handle where h: "handleTimeLoop ?answered (Num 0, []) = Inr handle"
    using handleTimeLoop_total by blast
  obtain st where st: "statusLoop vs statusTotals0 = Inr st"
    using statusLoop_total by blast
  obtain tp where tp:
    "productiveTimeLoop (allAnsweredCalls (validInteractions trainingInteractions)) (Num 0) = Inr tp"
    using productiveTimeLoop_total by blast
  have "calculateDetailedMetrics agentPerformance agentStatus trainingInteractions timeSummary =
       Inr (report agentPerformance (validAgentPerformance agentPerformance) agentStatus vs
              trainingInteractions (validInteractions trainingInteractions) queue handle st tp)"
    by (simp add: calculateDetailedMetrics_def Let_def vs q h st tp)
  with vs st show ?thesis by blast
qed

subsection \<open>The fields of the report\<close>

lemma report_kpis:
  "totalCalls (report ap vp as vs ti vi q h st tp) = totalCallsFromInteractions vi"
  "transferRate (report ap vp as vs ti vi q h st tp) = agentPerformanceTransferRate vp"
  "productiveUtilization (report ap vp as vs ti vi q h st tp) = productiveUtilizationOf tp st"
  "onQueueUtilization (report ap vp as vs ti vi q h st tp) = onQueueUtilizationOf st"
  "avgSpeedOfAnswer (report ap vp as vs ti vi q h st tp)
     = avgSpeedOfAnswerOf (answeredInbound (inboundCalls vi)) (fst q)"
  "abandonmentRate (report ap vp as vs ti vi q h st tp) = abandonmentRateOf (inboundCalls vi)"
  "avgHandleTime (report ap vp as vs ti vi q h st tp)
     = avgHandleTimeOf (answeredInbound (inboundCalls vi)) (fst h)"
  "shrinkage (report ap vp as vs ti vi q h st tp) = shrinkageOf st"
  by (simp_all add: report_def Let_def)

lemma report_traces:
  "cd_dataReconciliation (calculationDetails (report ap vp as vs ti vi q h st tp))
     = dataReconciliation vp vs vi"
  "cd_totalCalls (calculationDetails (report ap vp as vs ti vi q h st tp))
     = totalCallsTrace vp vi"
  "cd_transferRate (calculationDetails (report ap vp as vs ti vi q h st tp))
     = transferRateTrace vp vi"
  "cd_abandonmentRate (calculationDetails (report ap vp as vs ti vi q h st tp))
     = abandonmentTrace vi"
  "cd_avgSpeedOfAnswer (calculationDetails (report ap vp as vs ti vi q h st tp))
     = avgSpeedOfAnswerTrace (answeredInbound (inboundCalls vi)) (fst q) (snd q)"
  "cd_avgHandleTime (calculationDetails (report ap vp as vs ti vi q h st tp))
     = avgHandleTimeTrace (answeredInbound (inboundCalls vi)) (fst h) (snd h)"
  "cd_productiveUtilization (calculationDetails (report ap vp as vs ti vi q h st tp))
     = productiveUtilizationTrace (allAnsweredCalls vi) tp st"
  "cd_onQueueUtilization (calculationDetails (report ap vp as vs ti vi q h st tp))
     = onQueueUtilizationTrace st"
  "cd_shrinkage (calculationDetails (report ap vp as vs ti vi q h st tp)) = shrinkageTrace st"
  by (simp_all add: report_def Let_def)

lemma validInteractions_simps:
  "validInteractions [] = []"
  "validInteractions (r # rs) =
     (if truthy (r ''Initial Direction'') \<and> truthy (r ''Queue'')
      then r # validInteractions rs else validInteractions rs)"
  by (simp_all add: validInteractions_def)

lemma csvRow_apply [simp]: "csvRow cells k = map_of cells k"
  by (simp add: csvRow_def)

subsection \<open>What parseInt reads, and the sums of a count column\<close>

lemma parseInt_cases:
  "parseInt s = NaN \<or> parseInt s = NegZero \<or> (\<exists>k::int. parseInt s = toDouble (of_int k))"
proof -
  obtain sign S where t: "takeSign (trimStart s) = (sign, S)"
    by (cases "takeSign (trimStart s)")
  have z: "Num 0 = toDouble (real_of_int 0)" by simp
  show ?thesis
    unfolding parseInt_def t Let_def prod.case
    using z by (metis (full_types))
qed

lemma toDouble_int_positive: "jgt (toDouble (real_of_int k)) (Num 0) \<longleftrightarrow> 0 < k"
proof (cases "0 < k")
  case True
  then have "1 \<le> real_of_int k" by linarith
  from toDouble_ge_one[OF this] show ?thesis using True by auto
next
  case False
  show ?thesis
  proof (cases "k = 0")
    case True
    then show ?thesis by simp
  next
    case False
    with \<open>\<not> 0 < k\<close> have "real_of_int k < 0" by linarith
    from toDouble_negative[OF this] show ?thesis using \<open>\<not> 0 < k\<close> by simp
  qed
qed

lemma toDouble_int_not_NaN: "0 < k \<Longrightarrow> \<not> isNaN (toDouble (real_of_int k))"
proof -
  assume "0 < k"
  then have "1 \<le> real_of_int k" by linarith
  from toDouble_ge_one[OF this] show ?thesis by auto
qed

lemma parseInt_empty: "parseInt [] = NaN"
  by (simp add: parseInt_def trimStart_def)

lemma hasAnswered_iff:
  "hasAnswered agent \<longleftrightarrow>
     (\<exists>s k. agent ''Answered'' = Some s \<and> parseInt s = toDouble (of_int k) \<and> 0 < k)"
proof (cases "agent ''Answered''")
  case None
  then show ?thesis by (simp add: hasAnswered_def)
next
  case (Some s)
  show ?thesis
  proof
    assume h: "hasAnswered agent"
    then have g: "jgt (parseInt s) (Num 0)" and n: "\<not> isNaN (parseInt s)"
      by (simp_all add: hasAnswered_def Some ToString_def)
    from parseInt_cases[of s] n g obtain k where k: "parseInt s = toDouble (of_int k)"
      by auto
    with g have "0 < k" by (simp add: toDouble_int_positive)
    with k Some show "\<exists>s k. agent ''Answered'' = Some s \<and> parseInt s = toDouble (of_int k) \<and> 0 < k"
      by blast
  next
    assume "\<exists>s k. agent ''Answered'' = Some s \<and> parseInt s = toDouble (of_int k) \<and> 0 < k"
    then obtain k where k: "parseInt s = toDouble (of_int k)" "0 < k"
      using Some by auto
    have "s \<noteq> []"
      using k toDouble_int_not_NaN[OF k(2)] parseInt_empty by auto
    then show "hasAnswered agent"
      using k toDouble_int_not_NaN[OF k(2)]
      by (simp add: hasAnswered_def Some ToString_def toDouble_int_positive)
  qed
qed

lemma column_sums:
  "totalTransferred vp = jsSum (column ''Transferred'' vp)"
  "totalCallsFromAgentPerformance vp = jsSum (column ''Answered'' vp)"
  "agentPerformanceTotal vp = jsSum (column ''Answered'' vp)"
  by (simp_all add: totalTransferred_def totalCallsFromAgentPerformance_def
        agentPerformanceTotal_def jsSum_def column_def foldl_map Let_def)

lemma jadd_positive:
  assumes "a = Num 0 \<or> a = PosInf \<or> (\<exists>y. a = Num y \<and> 1 \<le> y)"
    and "b = PosInf \<or> (\<exists>y. b = Num y \<and> 1 \<le> y)"
  shows "jadd a b = PosInf \<or> (\<exists>y. jadd a b = Num y \<and> 1 \<le> y)"
proof -
  have fin: "jadd (Num x) (Num y) = PosInf \<or> (\<exists>z. jadd (Num x) (Num y) = Num z \<and> 1 \<le> z)"
    if "0 \<le> x" "1 \<le> y" for x y
  proof -
    have "1 \<le> x + y" using that by linarith
    from toDouble_ge_one[OF this] show ?thesis by simp
  qed
  from assms show ?thesis
  proof (elim disjE exE conjE)
    fix y assume "a = Num 0" "b = Num y" "1 \<le> y"
    then show ?thesis using fin[of 0 y] by simp
  next
    fix x y assume "a = Num x" "1 \<le> x" "b = Num y" "1 \<le> y"
    then show ?thesis using fin[of x y] by simp
  qed auto
qed

lemma hasAnswered_value:
  assumes "hasAnswered agent"
  shows "orZero (parseInt (ToString (agent ''Answered''))) = PosInf
         \<or> (\<exists>y. orZero (parseInt (ToString (agent ''Answered''))) = Num y \<and> 1 \<le> y)"
proof -
  from assms obtain s k where k:
    "agent ''Answered'' = Some s" "parseInt s = toDouble (of_int k)" "0 < k"
    by (auto simp: hasAnswered_iff)
  have "1 \<le> real_of_int k" using k(3) by linarith
  from toDouble_ge_one[OF this] show ?thesis
    using k(1,2) by (auto simp: ToString_def)
qed

lemma foldl_answered:
  assumes "\<forall>agent \<in> set vp. hasAnswered agent"
    and "acc = Num 0 \<or> acc = PosInf \<or> (\<exists>y. acc = Num y \<and> 1 \<le> y)"
  shows "foldl jadd acc (column ''Answered'' vp) = Num 0
         \<or> foldl jadd acc (column ''Answered'' vp) = PosInf
         \<or> (\<exists>y. foldl jadd acc (column ''Answered'' vp) = Num y \<and> 1 \<le> y)"
  using assms
proof (induction vp arbitrary: acc)
  case Nil
  then show ?case by (simp add: column_def)
next
  case (Cons agent vp)
  have h: "hasAnswered agent" using Cons.prems(1) by simp
  have "jadd acc (orZero (parseInt (ToString (agent ''Answered'')))) = PosInf
        \<or> (\<exists>y. jadd acc (orZero (parseInt (ToString (agent ''Answered'')))) = Num y \<and> 1 \<le> y)"
    by (rule jadd_positive[OF Cons.prems(2) hasAnswered_value[OF h]])
  then have "jadd acc (orZero (parseInt (ToString (agent ''Answered'')))) = Num 0
        \<or> jadd acc (orZero (parseInt (ToString (agent ''Answered'')))) = PosInf
        \<or> (\<exists>y. jadd acc (orZero (parseInt (ToString (agent ''Answered'')))) = Num y \<and> 1 \<le> y)"
    by blast
  from Cons.IH[OF _ this] Cons.prems(1) show ?case
    by (simp add: column_def)
qed

lemma answered_sum_cases:
  "jsSum (column ''Answered'' (validAgentPerformance ap)) = Num 0
   \<or> jsSum (column ''Answered'' (validAgentPerformance ap)) = PosInf
   \<or> (\<exists>y. jsSum (column ''Answered'' (validAgentPerformance ap)) = Num y \<and> 1 \<le> y)"
  unfolding jsSum_def
  by (rule foldl_answered) (auto simp: validAgentPerformance_def)

lemma answered_sum_positive:
  "jgt (jsSum (column ''Answered'' (validAgentPerformance ap))) (Num 0)
     \<longleftrightarrow> jsSum (column ''Answered'' (validAgentPerformance ap)) \<noteq> Num 0"
  using answered_sum_cases[of ap] by auto

subsection \<open>Total calls\<close>

lemma length_filter_YES_NO:
  assumes "\<forall>r \<in> set xs. r ''Abandoned'' = Some ''YES'' \<or> r ''Abandoned'' = Some ''NO''"
  shows "length (filter (\<lambda>call. call ''Abandoned'' = Some ''NO'') xs)
           + length (abandonedCalls xs) = length xs"
  using assms by (induction xs) (auto simp: abandonedCalls_def)

text \<open>
  Claim C1, as amended. When every valid interaction row carries \<open>YES\<close> or \<open>NO\<close>
  in its Abandoned field, the calculator returns a report whose Total Calls is the number
  of valid interaction rows minus the number of valid rows whose Abandoned field is
  \<open>YES\<close>.
\<close>

theorem totalCalls_is_valid_minus_abandoned:
  assumes "\<forall>r \<in> set (validInteractions trainingInteractions).
             r ''Abandoned'' = Some ''YES'' \<or> r ''Abandoned'' = Some ''NO''"
  shows "\<exists>m. calculateDetailedMetrics agentPerformance agentStatus trainingInteractions timeSummary
                = Inr m
           \<and> totalCalls m =
               Num (real (length (validInteractions trainingInteractions))
                    - real (length (abandonedCalls (validInteractions trainingInteractions))))"
proof -
  obtain m where m:
    "calculateDetailedMetrics agentPerformance agentStatus trainingInteractions timeSummary = Inr m"
    "totalCalls m = totalCallsFromInteractions (validInteractions trainingInteractions)"
    using calculate_shape[of agentStatus agentPerformance trainingInteractions timeSummary]
    by (auto simp: report_kpis)
  have "real (length (filter (\<lambda>call. call ''Abandoned'' = Some ''NO'')
                 (validInteractions trainingInteractions)))
        = real (length (validInteractions trainingInteractions))
          - real (length (abandonedCalls (validInteractions trainingInteractions)))"
    using length_filter_YES_NO[OF assms] by linarith
  with m show ?thesis by (simp add: totalCallsFromInteractions_def len_def)
qed

text \<open>The amended claim on a table of one abandoned and one answered call.\<close>

theorem totalCalls_is_valid_minus_abandoned_witness:
  "list_all (\<lambda>r. r ''Abandoned'' = Some ''YES'' \<or> r ''Abandoned'' = Some ''NO'')
     (validInteractions
        [csvRow [(''Initial Direction'', ''Inbound''), (''Queue'', ''Support''), (''Abandoned'', ''YES'')],
         csvRow [(''Initial Direction'', ''Inbound''), (''Queue'', ''Support''), (''Abandoned'', ''NO'')]])
   \<and> (\<exists>m. calculateDetailedMetrics [] []
        [csvRow [(''Initial Direction'', ''Inbound''), (''Queue'', ''Support''), (''Abandoned'', ''YES'')],
         csvRow [(''Initial Direction'', ''Inbound''), (''Queue'', ''Support''), (''Abandoned'', ''NO'')]] []
          = Inr m \<and> totalCalls m = Num 1)"
  using totalCalls_is_valid_minus_abandoned [of
        "[csvRow [(''Initial Direction'', ''Inbound''), (''Queue'', ''Support''), (''Abandoned'', ''YES'')],
          csvRow [(''Initial Direction'', ''Inbound''), (''Queue'', ''Support''), (''Abandoned'', ''NO'')]]"
        "[]" "[]" "[]"]
  by (simp add: validInteractions_simps abandonedCalls_def)

text \<open>
  Claim C1 as stated fails on a valid row whose Abandoned cell is empty: the row is
  neither counted as a call nor as abandoned, so Total Calls is 0 while the count of
  valid rows minus the abandoned ones is 1.
\<close>

theorem totalCalls_counterexample:
  "map_sum id totalCalls
     (calculateDetailedMetrics [] []
        [csvRow [(''Initial Direction'', ''Inbound''), (''Queue'', ''Support''), (''Abandoned'', '''')]] [])
     = Inr (Num 0)
   \<and> length (validInteractions
        [csvRow [(''Initial Direction'', ''Inbound''), (''Queue'', ''Support''), (''Abandoned'', '''')]])
     = 1
   \<and> length (abandonedCalls (validInteractions
        [csvRow [(''Initial Direction'', ''Inbound''), (''Queue'', ''Support''), (''Abandoned'', '''')]]))
     = 0
   \<and> map_sum id totalCalls
     (calculateDetailedMetrics [] []
        [csvRow [(''Initial Direction'', ''Inbound''), (''Queue'', ''Support''), (''Abandoned'', '''')]] [])
     \<noteq> Inr (Num (real (length (validInteractions
        [csvRow [(''Initial Direction'', ''Inbound''), (''Queue'', ''Support''), (''Abandoned'', '''')]]))
      - real (length (abandonedCalls (validInteractions
        [csvRow [(''Initial Direction'', ''Inbound''), (''Queue'', ''Support''), (''Abandoned'', '''')]])))))"
proof -
  obtain m where m:
    "calculateDetailedMetrics [] []
        [csvRow [(''Initial Direction'', ''Inbound''), (''Queue'', ''Support''), (''Abandoned'', '''')]] []
       = Inr m"
    "totalCalls m = totalCallsFromInteractions (validInteractions
        [csvRow [(''Initial Direction'', ''Inbound''), (''Queue'', ''Support''), (''Abandoned'', '''')]])"
    using calculate_shape[of "[]" "[]"
        "[csvRow [(''Initial Direction'', ''Inbound''), (''Queue'', ''Support''), (''Abandoned'', '''')]]" "[]"]
    by (auto simp: report_kpis)
  show ?thesis
    by (simp add: m validInteractions_simps abandonedCalls_def totalCallsFromInteractions_def len_def)
qed

subsection \<open>Transfer rate\<close>

lemma agentPerformanceTransferRate_sums:
  "agentPerformanceTransferRate (validAgentPerformance ap) =
     (if jsSum (column ''Answered'' (validAgentPerformance ap)) = Num 0 then Num 0
      else jmul (jdiv (jsSum (column ''Transferred'' (validAgentPerformance ap)))
                      (jsSum (column ''Answered'' (validAgentPerformance ap)))) (Num 100))"
  by (simp add: agentPerformanceTransferRate_def column_sums answered_sum_positive)

lemma mixedSourceTransferRate_sums:
  "mixedSourceTransferRate vp vi =
     (if allAnsweredCalls vi = [] then Num 0
      else jmul (jdiv (jsSum (column ''Transferred'' vp)) (len (allAnsweredCalls vi))) (Num 100))"
  by (simp add: mixedSourceTransferRate_def totalCallsFromInteractions_def allAnsweredCalls_def
        len_def column_sums)

text \<open>
  Claim C2. For every input the calculator returns a report whose Transfer Rate is the sum
  of Transferred over the valid performance rows divided by the sum of Answered over the
  same rows, times 100, and 0 when that sum of Answered is 0; the sums, the quotient and
  the product are those of the program's double arithmetic. The transfer-rate trace
  records this value as the reported rate, and beside it the rate against the number of
  answered interactions, which is 0 when there are none.
\<close>

theorem transferRate_from_performance_table:
  "\<exists>m. calculateDetailedMetrics agentPerformance agentStatus trainingInteractions timeSummary
          = Inr m
     \<and> transferRate m =
         (if jsSum (column ''Answered'' (validAgentPerformance agentPerformance)) = Num 0
          then Num 0
          else jmul (jdiv (jsSum (column ''Transferred'' (validAgentPerformance agentPerformance)))
                          (jsSum (column ''Answered'' (validAgentPerformance agentPerformance))))
                    (Num 100))
     \<and> tr_reportedRate (values_of (cd_transferRate (calculationDetails m))) = transferRate m
     \<and> tr_mixedSourceRate (values_of (cd_transferRate (calculationDetails m))) =
         (if allAnsweredCalls (validInteractions trainingInteractions) = [] then Num 0
          else jmul (jdiv (jsSum (column ''Transferred'' (validAgentPerformance agentPerformance)))
                          (len (allAnsweredCalls (validInteractions trainingInteractions))))
                    (Num 100))"
proof -
  obtain m where m:
    "calculateDetailedMetrics agentPerformance agentStatus trainingInteractions timeSummary = Inr m"
    "transferRate m = agentPerformanceTransferRate (validAgentPerformance agentPerformance)"
    "cd_transferRate (calculationDetails m) =
       transferRateTrace (validAgentPerformance agentPerformance)
         (validInteractions trainingInteractions)"
    using calculate_shape[of agentStatus agentPerformance trainingInteractions timeSummary]
    by (auto simp: report_kpis report_traces)
  have "tr_reportedRate (values_of (cd_transferRate (calculationDetails m))) = transferRate m"
    by (simp add: m transferRateTrace_def Let_def)
  moreover have "tr_mixedSourceRate (values_of (cd_transferRate (calculationDetails m))) =
      mixedSourceTransferRate (validAgentPerformance agentPerformance)
        (validInteractions trainingInteractions)"
    by (simp add: m transferRateTrace_def Let_def)
  ultimately show ?thesis
    using m(1,2)
    by (simp only: agentPerformanceTransferRate_sums mixedSourceTransferRate_sums) simp
qed

text \<open>The rate is a rounded double: 7 transfers on 100 answered calls give
  7.000000000000001, the double above 7.\<close>

lemma transferRate_rounding_example:
  "map_sum id transferRate
     (calculateDetailedMetrics [csvRow [(''Answered'', ''100''), (''Transferred'', ''7'')]] [] [] [])
   = Inr (Num (7881299347898369 / 2 ^ 50))"
proof -
  obtain m where m:
    "calculateDetailedMetrics [csvRow [(''Answered'', ''100''), (''Transferred'', ''7'')]] [] [] []
       = Inr m"
    "transferRate m = agentPerformanceTransferRate
       (validAgentPerformance [csvRow [(''Answered'', ''100''), (''Transferred'', ''7'')]])"
    using calculate_shape[of "[]" "[csvRow [(''Answered'', ''100''), (''Transferred'', ''7'')]]"
        "[]" "[]"]
    by (auto simp: report_kpis)
  have p: "parseInt ''100'' = Num 100" "parseInt ''7'' = Num 7"
    by (simp_all add: parse_eval)
  have v: "validAgentPerformance [csvRow [(''Answered'', ''100''), (''Transferred'', ''7'')]]
             = [csvRow [(''Answered'', ''100''), (''Transferred'', ''7'')]]"
    by (simp add: validAgentPerformance_def hasAnswered_def notTemplate_def ToString_def p)
  have "agentPerformanceTransferRate [csvRow [(''Answered'', ''100''), (''Transferred'', ''7'')]]
          = Num (7881299347898369 / 2 ^ 50)"
    by (simp add: agentPerformanceTransferRate_def totalCallsFromAgentPerformance_def
          totalTransferred_def ToString_def p double_eval)
  then show ?thesis by (simp add: m v)
qed

subsection \<open>Reconciliation of the two sources\<close>

lemma reconciliationResult_real:
  "reconciliationResult (Num p) =
     (if p \<le> 5 then variance_acceptable (ToFixedPct (Num p) 2)
      else if p \<le> 30 then DATA_INTEGRITY_ISSUE (ToFixedPct (Num p) 2)
      else URGENT_DATA_ISSUE (ToFixedPct (Num p) 2))"
  by (simp add: reconciliationResult_def)

lemma discrepancyPercent_unfold:
  "discrepancyPercent a b =
     (if jgt a (Num 0) then jmul (jdiv (Math_abs (jsub a b)) a) (Num 100) else Num 0)"
  by (simp add: discrepancyPercent_def callDiscrepancy_def)

lemma discrepancyPercent_examples:
  "discrepancyPercent (Num 100) (Num 104) = Num 4"
  "discrepancyPercent (Num 100) (Num 120) = Num 20"
  "discrepancyPercent (Num 100) (Num 140) = Num 40"
  by (simp_all add: discrepancyPercent_def callDiscrepancy_def double_eval)

text \<open>
  Claim C3. The reconciliation finding of every report is the classification of the
  discrepancy percentage of the two totals: the answered calls summed over the valid
  performance rows and the number of answered valid interactions. The percentage of
  totals \<open>a\<close> and \<open>b\<close> is \<open>|a - b| / a * 100\<close> in the program's arithmetic for
  \<open>a > 0\<close> and 0 otherwise; a percentage of at most 5 is an acceptable variance, one
  above 5 and at most 30 a data-integrity issue, one above 30 an urgent data issue. Totals
  100 and 104 are acceptable at 4 percent, 100 and 120 an integrity issue at 20 percent,
  100 and 140 urgent at 40 percent.
\<close>

theorem reconciliation_severity:
  "(\<exists>m. calculateDetailedMetrics agentPerformance agentStatus trainingInteractions timeSummary
           = Inr m
      \<and> result (cd_dataReconciliation (calculationDetails m)) =
          reconciliationResult
            (discrepancyPercent
               (jsSum (column ''Answered'' (validAgentPerformance agentPerformance)))
               (len (allAnsweredCalls (validInteractions trainingInteractions))))
      \<and> rc_discrepancyPercent (values_of (cd_dataReconciliation (calculationDetails m))) =
          ToFixedPct
            (discrepancyPercent
               (jsSum (column ''Answered'' (validAgentPerformance agentPerformance)))
               (len (allAnsweredCalls (validInteractions trainingInteractions))))
            2)
   \<and> discrepancyPercent a b =
        (if jgt a (Num 0) then jmul (jdiv (Math_abs (jsub a b)) a) (Num 100) else Num 0)
   \<and> reconciliationResult (Num p) =
        (if p \<le> 5 then variance_acceptable (ToFixedPct (Num p) 2)
         else if p \<le> 30 then DATA_INTEGRITY_ISSUE (ToFixedPct (Num p) 2)
         else URGENT_DATA_ISSUE (ToFixedPct (Num p) 2))
   \<and> reconciliationResult (discrepancyPercent (Num 100) (Num 104))
        = variance_acceptable (ToFixedPct (Num 4) 2)
   \<and> reconciliationResult (discrepancyPercent (Num 100) (Num 120))
        = DATA_INTEGRITY_ISSUE (ToFixedPct (Num 20) 2)
   \<and> reconciliationResult (discrepancyPercent (Num 100) (Num 140))
        = URGENT_DATA_ISSUE (ToFixedPct (Num 40) 2)"
proof -
  obtain vs queue handle st tp where s:
    "calculateDetailedMetrics agentPerformance agentStatus trainingInteractions timeSummary =
       Inr (report agentPerformance (validAgentPerformance agentPerformance) agentStatus vs
              trainingInteractions (validInteractions trainingInteractions) queue handle st tp)"
    using calculate_shape[of agentStatus agentPerformance trainingInteractions timeSummary]
    by blast
  let ?m = "report agentPerformance (validAgentPerformance agentPerformance) agentStatus vs
              trainingInteractions (validInteractions trainingInteractions) queue handle st tp"
  have 1: "result (cd_dataReconciliation (calculationDetails ?m)) =
          reconciliationResult
            (discrepancyPercent
               (jsSum (column ''Answered'' (validAgentPerformance agentPerformance)))
               (len (allAnsweredCalls (validInteractions trainingInteractions))))"
    by (simp add: report_traces dataReconciliation_def Let_def column_sums
          interactionsAnsweredTotal_def allAnsweredCalls_def)
  have 2: "rc_discrepancyPercent (values_of (cd_dataReconciliation (calculationDetails ?m))) =
          ToFixedPct
            (discrepancyPercent
               (jsSum (column ''Answered'' (validAgentPerformance agentPerformance)))
               (len (allAnsweredCalls (validInteractions trainingInteractions))))
            2"
    by (simp add: report_traces dataReconciliation_def Let_def column_sums
          interactionsAnsweredTotal_def allAnsweredCalls_def)
  have 3: "reconciliationResult (discrepancyPercent (Num 100) (Num 104))
        = variance_acceptable (ToFixedPct (Num 4) 2)"
    by (simp add: discrepancyPercent_examples reconciliationResult_real)
  have 4: "reconciliationResult (discrepancyPercent (Num 100) (Num 120))
        = DATA_INTEGRITY_ISSUE (ToFixedPct (Num 20) 2)"
    by (simp add: discrepancyPercent_examples reconciliationResult_real)
  have 5: "reconciliationResult (discrepancyPercent (Num 100) (Num 140))
        = URGENT_DATA_ISSUE (ToFixedPct (Num 40) 2)"
    by (simp add: discrepancyPercent_examples reconciliationResult_real)
  from s 1 2 3 4 5 show ?thesis
    using discrepancyPercent_unfold[of a b] reconciliationResult_real[of p] by blast
qed

text \<open>A total of answered calls beyond the range of doubles is infinite; the percentage
  is then not a number, which is neither above 30 nor above 5 and so is reported as an
  acceptable variance.\<close>

lemma reconciliation_of_infinite_total:
  "discrepancyPercent PosInf (Num b) = NaN"
  "reconciliationResult NaN = variance_acceptable (ToFixedPct NaN 2)"
  by (simp_all add: discrepancyPercent_def callDiscrepancy_def jsub_def jdiv_def jmul_def
        reconciliationResult_def)

subsection \<open>The duration parser\<close>

lemma parse_examples:
  "parseTimeToMinutes (Some ''0:00:00.000'') = Inr (Num 0)"
  "parseTimeToMinutes (Some ''1:00:00.000'') = Inr (Num 60)"
  "parseTimeToMinutes (Some ''2:00:00.000'') = Inr (Num 120)"
  "parseTimeToMinutes (Some ''0:30:00.000'') = Inr (Num 30)"
  by (simp_all add: parse_eval)

lemma length_split_colon: "length (split_colon s) = Suc (length (filter (\<lambda>c. c = CHR '':'') s))"
  by (induction s) (auto split: list.splits)

lemma filter_colon_dropWhile:
  "filter (\<lambda>c. c = CHR '':'') (dropWhile isWhiteSpace s) = filter (\<lambda>c. c = CHR '':'') s"
  by (induction s) (auto simp: isWhiteSpace_def)

lemma filter_colon_trim:
  "filter (\<lambda>c. c = CHR '':'') (trim s) = filter (\<lambda>c. c = CHR '':'') s"
proof -
  have "filter (\<lambda>c. c = CHR '':'') (trim s)
          = rev (filter (\<lambda>c. c = CHR '':'') (dropWhile isWhiteSpace (rev (dropWhile isWhiteSpace s))))"
    unfolding trim_def by (simp add: rev_filter)
  also have "\<dots> = rev (filter (\<lambda>c. c = CHR '':'') (rev (dropWhile isWhiteSpace s)))"
    by (simp only: filter_colon_dropWhile)
  also have "\<dots> = filter (\<lambda>c. c = CHR '':'') (dropWhile isWhiteSpace s)"
    by (simp add: rev_filter)
  also have "\<dots> = filter (\<lambda>c. c = CHR '':'') s"
    by (rule filter_colon_dropWhile)
  finally show ?thesis .
qed

lemma length_split_colon_trim: "length (split_colon (trim s)) = length (split_colon s)"
  by (simp add: length_split_colon filter_colon_trim)

text \<open>
  Claim C4, as amended. The duration parser returns a number for every text and for a
  missing value, and the parser to seconds returns 60 times that number; both return 0
  for a missing value, for the empty text, for the text \<open>0:00:00.000\<close> and for every
  text that does not split at its colons into exactly three parts. When the trimmed text
  has three parts, the result is hours times 60 plus minutes plus seconds over 60, where
  each part counts as the number \<open>parseInt\<close> (hours, minutes) or \<open>parseFloat\<close>
  (seconds) reads from its start; a part from which no number is read counts as 0 and
  the other parts keep their values.
\<close>

theorem parseTimeToMinutes_total_and_lenient:
  "(\<exists>n. parseTimeToMinutes v = Inr n)
   \<and> parseTimeToSeconds v = map_sum id (\<lambda>n. jmul n (Num 60)) (parseTimeToMinutes v)
   \<and> parseTimeToMinutes None = Inr (Num 0) \<and> parseTimeToSeconds None = Inr (Num 0)
   \<and> parseTimeToMinutes (Some '''') = Inr (Num 0) \<and> parseTimeToSeconds (Some '''') = Inr (Num 0)
   \<and> parseTimeToMinutes (Some ''0:00:00.000'') = Inr (Num 0)
   \<and> parseTimeToSeconds (Some ''0:00:00.000'') = Inr (Num 0)
   \<and> (length (split_colon s) \<noteq> 3 \<longrightarrow>
        parseTimeToMinutes (Some s) = Inr (Num 0) \<and> parseTimeToSeconds (Some s) = Inr (Num 0))
   \<and> (split_colon (trim t) = [p0, p1, p2] \<longrightarrow>
        parseTimeToMinutes (Some t) =
          Inr (minutesOf (orZero (parseInt p0)) (orZero (parseInt p1)) (orZero (parseFloat p2)))
      \<and> parseTimeToSeconds (Some t) =
          Inr (jmul (minutesOf (orZero (parseInt p0)) (orZero (parseInt p1))
                       (orZero (parseFloat p2))) (Num 60))
      \<and> (parseInt p0 = NaN \<longrightarrow>
           parseTimeToMinutes (Some t) =
             Inr (minutesOf (Num 0) (orZero (parseInt p1)) (orZero (parseFloat p2))))
      \<and> (parseInt p1 = NaN \<longrightarrow>
           parseTimeToMinutes (Some t) =
             Inr (minutesOf (orZero (parseInt p0)) (Num 0) (orZero (parseFloat p2))))
      \<and> (parseFloat p2 = NaN \<longrightarrow>
           parseTimeToMinutes (Some t) =
             Inr (minutesOf (orZero (parseInt p0)) (orZero (parseInt p1)) (Num 0))))"
proof -
  obtain n where n: "parseTimeToMinutes v = Inr n"
    using parseTimeToMinutes_total by blast
  have sec: "parseTimeToSeconds w = map_sum id (\<lambda>n. jmul n (Num 60)) (parseTimeToMinutes w)"
    for w
  proof -
    obtain k where "parseTimeToMinutes w = Inr k" using parseTimeToMinutes_total by blast
    then show ?thesis by (simp add: parseTimeToSeconds_def)
  qed
  have z: "jmul (Num 0) (Num 60) = Num 0"
    by (simp add: jmul_def signedZero_def)
  have none: "parseTimeToMinutes None = Inr (Num 0)"
    by (simp add: parseTimeToMinutes_def)
  have empty: "parseTimeToMinutes (Some '''') = Inr (Num 0)"
    by (simp add: parseTimeToMinutes_def)
  have sentinel: "parseTimeToMinutes (Some ''0:00:00.000'') = Inr (Num 0)"
    by (rule parse_examples)
  have parts: "parseTimeToMinutes (Some s) = Inr (Num 0)" if "length (split_colon s) \<noteq> 3"
    using that length_split_colon_trim[of s]
    by (auto simp: parseTimeToMinutes_def split: list.splits)
  have three: "parseTimeToMinutes (Some t) =
      Inr (minutesOf (orZero (parseInt p0)) (orZero (parseInt p1)) (orZero (parseFloat p2)))"
    if "split_colon (trim t) = [p0, p1, p2]"
  proof -
    have "trim t \<noteq> []" using that by auto
    moreover from this have "t \<noteq> []" by (auto simp: trim_def)
    ultimately show ?thesis
      using that by (simp add: parseTimeToMinutes_def minutesOf_def Let_def)
  qed
  have h: "parseTimeToMinutes (Some t) =
             Inr (minutesOf (Num 0) (orZero (parseInt p1)) (orZero (parseFloat p2)))"
    if "split_colon (trim t) = [p0, p1, p2]" "parseInt p0 = NaN"
    using three[OF that(1)] that(2) by simp
  have m: "parseTimeToMinutes (Some t) =
             Inr (minutesOf (orZero (parseInt p0)) (Num 0) (orZero (parseFloat p2)))"
    if "split_colon (trim t) = [p0, p1, p2]" "parseInt p1 = NaN"
    using three[OF that(1)] that(2) by simp
  have sc: "parseTimeToMinutes (Some t) =
             Inr (minutesOf (orZero (parseInt p0)) (orZero (parseInt p1)) (Num 0))"
    if "split_colon (trim t) = [p0, p1, p2]" "parseFloat p2 = NaN"
    using three[OF that(1)] that(2) by simp
  show ?thesis
    using n none empty sentinel parts three h m sc
    by (simp add: sec z)
qed

text \<open>The amended claim on a text of two parts and on three texts with one part from
  which no number is read: the hours, the minutes, the seconds.\<close>

theorem parseTimeToMinutes_total_and_lenient_witness:
  "parseTimeToMinutes (Some ''1:30'') = Inr (Num 0)
   \<and> parseTimeToSeconds (Some ''1:30'') = Inr (Num 0)
   \<and> parseTimeToMinutes (Some ''abc:30:00'') = Inr (Num 30)
   \<and> parseTimeToSeconds (Some ''abc:30:00'') = Inr (Num 1800)
   \<and> parseTimeToMinutes (Some ''1:xx:00'') = Inr (Num 60)
   \<and> parseTimeToMinutes (Some ''1:30:zz'') = Inr (Num 90)"
proof -
  have 1: "length (split_colon ''1:30'') \<noteq> 3"
    by simp
  have 2: "split_colon (trim ''abc:30:00'') = [''abc'', ''30'', ''00'']" "parseInt ''abc'' = NaN"
    by (simp_all add: parse_eval)
  have 3: "split_colon (trim ''1:xx:00'') = [''1'', ''xx'', ''00'']" "parseInt ''xx'' = NaN"
    by (simp_all add: parse_eval)
  have 4: "split_colon (trim ''1:30:zz'') = [''1'', ''30'', ''zz'']" "parseFloat ''zz'' = NaN"
    by (simp_all add: parse_eval)
  have v: "orZero (parseInt ''30'') = Num 30" "orZero (parseInt ''1'') = Num 1"
    "orZero (parseFloat ''00'') = Num 0"
    by (simp_all add: parse_eval)
  have a: "minutesOf (Num 0) (Num 30) (Num 0) = Num 30"
    "jmul (Num 30) (Num 60) = Num 1800"
    "minutesOf (Num 1) (Num 0) (Num 0) = Num 60"
    "minutesOf (Num 1) (Num 30) (Num 0) = Num 90"
    by (simp_all add: minutesOf_def double_eval)
  show ?thesis
    using parseTimeToMinutes_total_and_lenient
            [of None "''1:30''" "''abc:30:00''" "''abc''" "''30''" "''00''"]
          parseTimeToMinutes_total_and_lenient
            [of None "''1:30''" "''1:xx:00''" "''1''" "''xx''" "''00''"]
          parseTimeToMinutes_total_and_lenient
            [of None "''1:30''" "''1:30:zz''" "''1''" "''30''" "''zz''"]
          1 2 3 4
    by (simp add: v a)
qed

text \<open>
  Claim C4 as stated fails on a part that is not a number but starts with one: the
  minutes \<open>3x\<close> count as 3, not as 0, so \<open>1:3x:00\<close> is 63 minutes where
  \<open>1:0:00\<close> is 60.
\<close>

theorem parseTimeToMinutes_numeric_prefix_counterexample:
  "parseInt ''3x'' = Num 3
   \<and> parseTimeToMinutes (Some ''1:3x:00'') = Inr (Num 63)
   \<and> parseTimeToMinutes (Some ''1:0:00'') = Inr (Num 60)
   \<and> parseTimeToSeconds (Some ''1:3x:00'') = Inr (Num 3780)
   \<and> parseTimeToSeconds (Some ''1:0:00'') = Inr (Num 3600)"
  by (simp add: parse_eval parseTimeToSeconds_def)

subsection \<open>Zero denominators in the traces\<close>

text \<open>
  Claim C5 does not hold of two trace figures. On empty tables the reconciliation trace
  divides a discrepancy of 0 by a difference of 0 agents, and the transfer-rate trace
  divides by a rate of 0; both figures are \<open>NaN\<close>.
\<close>

theorem trace_figures_NaN_on_empty_tables:
  "\<exists>m. calculateDetailedMetrics [] [] [] [] = Inr m
     \<and> possibleCallsPerMissingAgent
          (rc_agentCoverage (values_of (cd_dataReconciliation (calculationDetails m)))) = NaN
     \<and> tr_potentialUnderstatement (values_of (cd_transferRate (calculationDetails m)))
          = ToFixedPct NaN 1"
proof -
  obtain vs queue handle st tp where s:
    "validAgentStatus [] = Inr vs"
    "calculateDetailedMetrics [] [] [] [] =
       Inr (report [] (validAgentPerformance []) [] vs [] (validInteractions []) queue handle st tp)"
    using calculate_shape[of "[]" "[]" "[]" "[]"] by blast
  have vs: "vs = []" using s(1) by (simp add: validAgentStatus_def)
  have 1: "possibleCallsPerMissingAgent
             (rc_agentCoverage (values_of (dataReconciliation [] [] []))) = NaN"
    by (simp add: dataReconciliation_def Let_def agentPerformanceTotal_def
          interactionsAnsweredTotal_def callDiscrepancy_def len_def double_eval)
  have 2: "tr_potentialUnderstatement (values_of (transferRateTrace [] [])) = ToFixedPct NaN 1"
    by (simp add: transferRateTrace_def Let_def agentPerformanceTransferRate_def
          mixedSourceTransferRate_def totalCallsFromAgentPerformance_def
          totalCallsFromInteractions_def len_def double_eval)
  show ?thesis
    using 1 2 by (simp add: s(2) vs report_traces validAgentPerformance_def validInteractions_def)
qed

text \<open>An indicator itself can be \<open>NaN\<close>: the seconds of a duration are read by
  \<open>parseFloat\<close>, which accepts \<open>Infinity\<close>, and an infinite On Queue total over an
  infinite Logged In total is not a number.\<close>

lemma onQueueUtilization_NaN_on_infinite_durations:
  "\<exists>m. calculateDetailedMetrics []
          [csvRow [(''Logged In'', ''0:00:Infinity''), (''On Queue'', ''0:00:Infinity'')]] [] []
          = Inr m
     \<and> onQueueUtilization m = NaN"
proof -
  let ?status = "[csvRow [(''Logged In'', ''0:00:Infinity''), (''On Queue'', ''0:00:Infinity'')]]"
  obtain vs queue handle st tp where s:
    "validAgentStatus ?status = Inr vs"
    "statusLoop vs statusTotals0 = Inr st"
    "calculateDetailedMetrics [] ?status [] [] =
       Inr (report [] (validAgentPerformance []) ?status vs [] (validInteractions [])
              queue handle st tp)"
    using calculate_shape[of ?status "[]" "[]" "[]"] by blast
  have vs: "vs = ?status"
    using s(1)
    by (simp add: validAgentStatus_def hasLoggedTime_def notTemplate_def trim_def isWhiteSpace_def)
  have p: "parseTimeToMinutes (Some ''0:00:Infinity'') = Inr PosInf"
    "parseTimeToMinutes (Some ''0:00:00.000'') = Inr (Num 0)"
    by (simp_all add: parse_eval)
  have "totalLoggedTime st = PosInf \<and> totalOnQueueTime st = PosInf"
    using s(2) unfolding vs
    by (auto simp: statusDurations_def orDefault_def p statusStep_def statusTotals0_def)
  then have "onQueueUtilizationOf st = NaN"
    by (simp add: onQueueUtilizationOf_def jdiv_def jmul_def)
  then show ?thesis by (simp add: s(3) report_kpis)
qed

subsection \<open>The performance filter\<close>

text \<open>
  Claim C6, as amended. A performance row is kept by the filter exactly when its Answered
  cell is present, \<open>parseInt\<close> reads a strictly positive integer from it (delivered as
  the nearest double), and its agent name does not contain \<open>Template\<close>. A row whose
  Answered cell reads as 0 is excluded.
\<close>

theorem validAgentPerformance_keeps_positive_rows:
  "agent \<in> set (validAgentPerformance agentPerformance) \<longleftrightarrow>
     agent \<in> set agentPerformance
     \<and> (\<exists>s k. agent ''Answered'' = Some s \<and> parseInt s = toDouble (of_int k) \<and> 0 < k)
     \<and> notTemplate agent"
  by (auto simp: validAgentPerformance_def hasAnswered_iff)

text \<open>
  Claim C6 as stated fails on a row whose Answered cell is \<open>0\<close>: the cell reads as the
  integer 0 and the name is not a template, yet the filter drops the row.
\<close>

theorem validAgentPerformance_drops_zero_answered:
  "parseInt (ToString (csvRow [(''Agent Name'', ''Alice''), (''Answered'', ''0'')] ''Answered''))
     = Num 0
   \<and> notTemplate (csvRow [(''Agent Name'', ''Alice''), (''Answered'', ''0'')])
   \<and> validAgentPerformance [csvRow [(''Agent Name'', ''Alice''), (''Answered'', ''0'')]] = []"
  by (simp add: validAgentPerformance_def hasAnswered_def notTemplate_def ToString_def parse_eval)

subsection \<open>Abandonment rate\<close>

lemma jdiv_fraction:
  assumes "0 \<le> a" "a \<le> b" "0 < b"
  shows "\<exists>q. jdiv (Num a) (Num b) = Num q \<and> 0 \<le> q \<and> q \<le> 1"
proof (cases "a = 0")
  case True
  then show ?thesis using assms by (simp add: jdiv_def signedZero_def)
next
  case False
  have "0 \<le> a / b" "a / b \<le> real_of_int 1" using assms by simp_all
  from toDouble_bounded[OF this] obtain y where "toDouble (a / b) = Num y" "0 \<le> y" "y \<le> 1"
    by auto
  then show ?thesis using False assms by (simp add: jdiv_def)
qed

lemma jmul_percent:
  assumes "0 \<le> q" "q \<le> 1"
  shows "\<exists>r. jmul (Num q) (Num 100) = Num r \<and> 0 \<le> r \<and> r \<le> 100"
proof (cases "q = 0")
  case True
  then show ?thesis by (simp add: jmul_def signedZero_def)
next
  case False
  have "0 \<le> q * 100" "q * 100 \<le> real_of_int 100" using assms by simp_all
  from toDouble_bounded[OF this] obtain y where "toDouble (q * 100) = Num y" "0 \<le> y" "y \<le> 100"
    by auto
  then show ?thesis using False by (simp add: jmul_def)
qed

lemma abandonmentRateOf_empty: "abandonmentRateOf [] = Num 0"
  by (simp add: abandonmentRateOf_def len_def)

lemma abandonmentRateOf_bounds:
  "\<exists>r. abandonmentRateOf inbound = Num r \<and> 0 \<le> r \<and> r \<le> 100"
proof (cases "inbound = []")
  case True
  then show ?thesis by (simp add: abandonmentRateOf_empty)
next
  case False
  have le: "real (length (abandonedCalls inbound)) \<le> real (length inbound)"
    by (simp add: abandonedCalls_def)
  have pos: "0 < real (length inbound)"
    using False by simp
  from jdiv_fraction[OF _ le pos] obtain q where q:
    "jdiv (Num (real (length (abandonedCalls inbound)))) (Num (real (length inbound))) = Num q"
    "0 \<le> q" "q \<le> 1"
    by auto
  from jmul_percent[OF q(2,3)] obtain r where "jmul (Num q) (Num 100) = Num r" "0 \<le> r" "r \<le> 100"
    by auto
  then show ?thesis using False q(1) by (simp add: abandonmentRateOf_def len_def)
qed

text \<open>
  Claim C7. For every input the calculator returns a report whose Abandonment Rate is a
  finite number between 0 and 100, and it is 0 when no valid interaction is inbound.
\<close>

theorem abandonmentRate_in_range:
  "\<exists>m. calculateDetailedMetrics agentPerformance agentStatus trainingInteractions timeSummary
          = Inr m
     \<and> (\<exists>r. abandonmentRate m = Num r \<and> 0 \<le> r \<and> r \<le> 100)
     \<and> (inboundCalls (validInteractions trainingInteractions) = [] \<longrightarrow>
          abandonmentRate m = Num 0)"
proof -
  obtain m where m:
    "calculateDetailedMetrics agentPerformance agentStatus trainingInteractions timeSummary = Inr m"
    "abandonmentRate m = abandonmentRateOf (inboundCalls (validInteractions trainingInteractions))"
    using calculate_shape[of agentStatus agentPerformance trainingInteractions timeSummary]
    by (auto simp: report_kpis)
  show ?thesis
    using m abandonmentRateOf_bounds[of "inboundCalls (validInteractions trainingInteractions)"]
    by (auto simp: abandonmentRateOf_empty)
qed

text \<open>Claim C7 on a table with one outbound call and no inbound call.\<close>

theorem abandonmentRate_in_range_witness:
  "inboundCalls (validInteractions
      [csvRow [(''Initial Direction'', ''Outbound''), (''Queue'', ''Sales''), (''Abandoned'', ''NO'')]])
     = []
   \<and> (\<exists>m. calculateDetailedMetrics [] []
        [csvRow [(''Initial Direction'', ''Outbound''), (''Queue'', ''Sales''), (''Abandoned'', ''NO'')]]
        [] = Inr m \<and> abandonmentRate m = Num 0)"
  using abandonmentRate_in_range [of "[]" "[]"
      "[csvRow [(''Initial Direction'', ''Outbound''), (''Queue'', ''Sales''), (''Abandoned'', ''NO'')]]"
      "[]"]
  by (auto simp: validInteractions_simps inboundCalls_def)

subsection \<open>On-queue utilization\<close>

lemma statusDurations_examples:
  "statusDurations (csvRow [(''Logged In'', ''1:00:00.000''), (''On Queue'', ''0:30:00.000'')])
     = Inr [Num 60, Num 30, Num 0, Num 0, Num 0, Num 0, Num 0]"
  "statusDurations (csvRow [(''Logged In'', ''2:00:00.000''), (''On Queue'', ''1:00:00.000'')])
     = Inr [Num 120, Num 60, Num 0, Num 0, Num 0, Num 0, Num 0]"
  "statusDurations (csvRow [(''Logged In'', ''0:00:00.000'')])
     = Inr [Num 0, Num 0, Num 0, Num 0, Num 0, Num 0, Num 0]"
  by (simp_all add: statusDurations_def orDefault_def parse_examples)

text \<open>
  Claim C8. For the status table of three rows with Logged In \<open>1:00:00.000\<close>,
  \<open>2:00:00.000\<close>, \<open>0:00:00.000\<close> and On Queue \<open>0:30:00.000\<close>, \<open>1:00:00.000\<close>
  and none for the third row, and for any other tables, the calculator returns a report
  whose On-Queue Utilization is 50.
\<close>

theorem onQueueUtilization_scenario:
  "\<exists>m. calculateDetailedMetrics agentPerformance
          [csvRow [(''Logged In'', ''1:00:00.000''), (''On Queue'', ''0:30:00.000'')],
           csvRow [(''Logged In'', ''2:00:00.000''), (''On Queue'', ''1:00:00.000'')],
           csvRow [(''Logged In'', ''0:00:00.000'')]]
          trainingInteractions timeSummary = Inr m
     \<and> onQueueUtilization m = Num 50"
proof -
  let ?status =
    "[csvRow [(''Logged In'', ''1:00:00.000''), (''On Queue'', ''0:30:00.000'')],
      csvRow [(''Logged In'', ''2:00:00.000''), (''On Queue'', ''1:00:00.000'')],
      csvRow [(''Logged In'', ''0:00:00.000'')]]"
  obtain vs queue handle st tp where s:
    "validAgentStatus ?status = Inr vs"
    "statusLoop vs statusTotals0 = Inr st"
    "calculateDetailedMetrics agentPerformance ?status trainingInteractions timeSummary =
       Inr (report agentPerformance (validAgentPerformance agentPerformance) ?status vs
              trainingInteractions (validInteractions trainingInteractions) queue handle st tp)"
    using calculate_shape[of ?status agentPerformance trainingInteractions timeSummary] by blast
  have vs: "vs = ?status"
    using s(1)
    by (simp add: validAgentStatus_def hasLoggedTime_def notTemplate_def trim_def isWhiteSpace_def)
  have "totalLoggedTime st = Num 180 \<and> totalOnQueueTime st = Num 90"
    using s(2) unfolding vs
    by (auto simp: statusDurations_examples statusStep_def statusTotals0_def double_eval)
  then have "onQueueUtilizationOf st = Num 50"
    by (simp add: onQueueUtilizationOf_def double_eval)
  then show ?thesis by (simp add: s(3) report_kpis)
qed

subsection \<open>The dashboard component against the calculator\<close>

text \<open>
  Claim C9 does not hold. On an abandoned inbound call with an empty Queue cell the
  dashboard component, which does not ask for a queue, reports an abandonment rate of 100,
  and the calculator, which drops the row, reports 0.
\<close>

theorem dashboard_abandonmentRate_differs:
  "dashboard_abandonmentRate
     [csvRow [(''Initial Direction'', ''Inbound''), (''Queue'', ''''), (''Abandoned'', ''YES'')]]
     = Num 100
   \<and> map_sum id abandonmentRate
       (calculateDetailedMetrics [] []
          [csvRow [(''Initial Direction'', ''Inbound''), (''Queue'', ''''), (''Abandoned'', ''YES'')]]
          [])
     = Inr (Num 0)"
proof -
  obtain m where m:
    "calculateDetailedMetrics [] []
        [csvRow [(''Initial Direction'', ''Inbound''), (''Queue'', ''''), (''Abandoned'', ''YES'')]] []
       = Inr m"
    "abandonmentRate m = abandonmentRateOf (inboundCalls (validInteractions
        [csvRow [(''Initial Direction'', ''Inbound''), (''Queue'', ''''), (''Abandoned'', ''YES'')]]))"
    using calculate_shape[of "[]" "[]"
        "[csvRow [(''Initial Direction'', ''Inbound''), (''Queue'', ''''), (''Abandoned'', ''YES'')]]"
        "[]"]
    by (auto simp: report_kpis)
  show ?thesis
    by (simp add: m dashboard_abandonmentRate_def dashboard_validInteractions_def
          validInteractions_simps inboundCalls_def abandonmentRateOf_def abandonedCalls_def
          len_def double_eval)
qed

text \<open>The two rates agree on every table in which each inbound row names a queue.\<close>

lemma dashboard_abandonmentRate_agrees:
  assumes "\<forall>r \<in> set trainingInteractions.
             r ''Initial Direction'' = Some ''Inbound'' \<longrightarrow> truthy (r ''Queue'')"
  shows "dashboard_abandonmentRate trainingInteractions
           = abandonmentRateOf (inboundCalls (validInteractions trainingInteractions))"
proof -
  have "filter (\<lambda>call. call ''Initial Direction'' = Some ''Inbound'')
          (dashboard_validInteractions trainingInteractions)
        = inboundCalls (validInteractions trainingInteractions)"
    using assms
    by (induction trainingInteractions)
       (auto simp: dashboard_validInteractions_def inboundCalls_def validInteractions_def)
  then show ?thesis
    by (simp add: dashboard_abandonmentRate_def abandonmentRateOf_def abandonedCalls_def Let_def)
qed

subsection \<open>Totality of the calculator\<close>

text \<open>
  Claim C10. For all tables of rows whose cells are text or missing, the calculator
  returns a report and throws no exception; the report holds the eight indicators, and
  the trace of each indicator records the same value as the indicator.
\<close>

theorem calculateDetailedMetrics_total:
  "\<exists>m. calculateDetailedMetrics agentPerformance agentStatus trainingInteractions timeSummary
          = Inr m
     \<and> result (cd_totalCalls (calculationDetails m)) = totalCalls m
     \<and> tr_reportedRate (values_of (cd_transferRate (calculationDetails m))) = transferRate m
     \<and> result (cd_productiveUtilization (calculationDetails m)) = productiveUtilization m
     \<and> result (cd_onQueueUtilization (calculationDetails m)) = onQueueUtilization m
     \<and> result (cd_avgSpeedOfAnswer (calculationDetails m)) = avgSpeedOfAnswer m
     \<and> result (cd_abandonmentRate (calculationDetails m)) = abandonmentRate m
     \<and> result (cd_avgHandleTime (calculationDetails m)) = avgHandleTime m
     \<and> result (cd_shrinkage (calculationDetails m)) = shrinkage m"
proof -
  obtain vs queue handle st tp where
    "calculateDetailedMetrics agentPerformance agentStatus trainingInteractions timeSummary =
       Inr (report agentPerformance (validAgentPerformance agentPerformance) agentStatus vs
              trainingInteractions (validInteractions trainingInteractions) queue handle st tp)"
    using calculate_shape[of agentStatus agentPerformance trainingInteractions timeSummary]
    by blast
  then show ?thesis
    by (simp add: report_kpis report_traces totalCallsTrace_def transferRateTrace_def
          productiveUtilizationTrace_def onQueueUtilizationTrace_def avgSpeedOfAnswerTrace_def
          abandonmentTrace_def avgHandleTimeTrace_def shrinkageTrace_def Let_def)
qed

end
